theory Spec2Isabelle
  imports Main "HOL-Library.Sublist"
begin

section \<open>Storage facade and export builder of TVB: a shallow embedding\<close>

text \<open>
  The development follows two Python classes: \<open>StorageInterface\<close>
  (tvb/storage/storage_interface.py) and \<open>ExportManager\<close>
  (tvb/adapters/exporters/export_manager.py). Both are thin layers over collaborators
  whose code is not part of the sources at hand (\<open>FilesHelper\<close>, \<open>TvbZip\<close>,
  \<open>DataEncryptionHandler\<close>, \<open>EncryptionHandler\<close>, the \<open>dao\<close>, the exporters,
  \<open>h5\<close>). Those collaborators are the fields of the record \<open>env\<close> below; the functions
  of the two classes are translated line by line over that record. The operating system
  calls the two classes make themselves (\<open>os.listdir\<close>, \<open>os.rmdir\<close>, \<open>os.remove\<close>,
  \<open>os.rename\<close>, \<open>os.path.*\<close>) are modelled on a flat file system.
\<close>

subsection \<open>Exceptions\<close>

datatype error =
    InvalidExportDataException
  | ExportException
  | RenameWhileSyncEncryptingException
  | FileStructureException
  | TypeError
  | AttributeError
  | OSError

subsection \<open>Python values that are used as identifiers\<close>

text \<open>
  An operation id is an integer for stored operations and the string
  \<open>'links-to-external-projects'\<close> for the synthetic import operation; the list of folders
  to exclude holds operation ids and the string \<open>"TEMP"\<close>.
\<close>

datatype pyval = PyNone | PyInt int | PyStr string

definition digit_char :: "nat \<Rightarrow> char" where
  "digit_char d = char_of (48 + d)"

function string_of_nat :: "nat \<Rightarrow> string" where
  "string_of_nat n =
     (if n < 10 then [digit_char n] else string_of_nat (n div 10) @ [digit_char (n mod 10)])"
  by pat_completeness auto
termination
  by (relation "measure id") auto

declare string_of_nat.simps [simp del]

definition string_of_int :: "int \<Rightarrow> string" where
  "string_of_int i = (if i < 0 then CHR ''-'' # string_of_nat (nat (- i)) else string_of_nat (nat i))"

text \<open>Python's \<open>str(x)\<close> on an identifier.\<close>

fun str :: "pyval \<Rightarrow> string" where
  "str PyNone = ''None''"
| "str (PyInt i) = string_of_int i"
| "str (PyStr s) = s"

subsection \<open>Paths (posixpath)\<close>

type_synonym path = string

definition os_sep :: string where
  "os_sep = ''/''"

text \<open>\<open>os.path.join(a, b)\<close> for two components.\<close>

definition os_path_join :: "path \<Rightarrow> path \<Rightarrow> path" where
  "os_path_join a b =
     (if prefix ''/'' b then b
      else if a = [] \<or> suffix ''/'' a then a @ b
      else a @ ''/'' @ b)"

text \<open>\<open>os.path.basename(p)\<close>: what follows the last slash.\<close>

definition os_path_basename :: "path \<Rightarrow> path" where
  "os_path_basename p = rev (takeWhile (\<lambda>c. c \<noteq> CHR ''/'') (rev p))"

subsection \<open>A flat file system\<close>

text \<open>
  The file system is an association list from paths to node kinds; the first entry for a
  path is the one that counts. The entries of a directory \<open>d\<close> are the paths
  \<open>os.path.join(d, f)\<close> with \<open>f\<close> a non-empty name without a slash, in the order of the
  list (\<open>os.listdir\<close> promises no order).
\<close>

datatype node = File | Dir

type_synonym filesystem = "(path \<times> node) list"

definition os_path_exists :: "filesystem \<Rightarrow> path \<Rightarrow> bool" where
  "os_path_exists fs p = (map_of fs p \<noteq> None)"

definition os_path_isfile :: "filesystem \<Rightarrow> path \<Rightarrow> bool" where
  "os_path_isfile fs p = (map_of fs p = Some File)"

definition os_path_isdir :: "filesystem \<Rightarrow> path \<Rightarrow> bool" where
  "os_path_isdir fs p = (map_of fs p = Some Dir)"

definition entry_name :: "path \<Rightarrow> path \<Rightarrow> string option" where
  "entry_name d q =
     (let pre = os_path_join d [];
          f = drop (length pre) q
      in if take (length pre) q = pre \<and> f \<noteq> [] \<and> CHR ''/'' \<notin> set f then Some f else None)"

definition dir_entries :: "filesystem \<Rightarrow> path \<Rightarrow> string list" where
  "dir_entries fs d = List.map_filter (entry_name d) (map fst fs)"

definition delete_path :: "path \<Rightarrow> filesystem \<Rightarrow> filesystem" where
  "delete_path p fs = filter (\<lambda>e. fst e \<noteq> p) fs"

text \<open>\<open>os.listdir(d)\<close>: raises when \<open>d\<close> is missing or not a directory.\<close>

definition os_listdir :: "filesystem \<Rightarrow> path \<Rightarrow> error + string list" where
  "os_listdir fs d = (if os_path_isdir fs d then Inr (dir_entries fs d) else Inl OSError)"

text \<open>\<open>os.rmdir(d)\<close>: removes an empty directory, raises otherwise.\<close>

definition os_rmdir :: "path \<Rightarrow> filesystem \<Rightarrow> error + filesystem" where
  "os_rmdir d fs =
     (if os_path_isdir fs d \<and> dir_entries fs d = [] then Inr (delete_path d fs) else Inl OSError)"

text \<open>\<open>os.remove(p)\<close>: removes a regular file, raises on a directory or a missing path.\<close>

definition os_remove :: "path \<Rightarrow> filesystem \<Rightarrow> error + filesystem" where
  "os_remove p fs = (if os_path_isfile fs p then Inr (delete_path p fs) else Inl OSError)"

text \<open>
  \<open>os.rename(src, dst)\<close> on POSIX: \<open>src\<close> must exist; neither path may lie below the
  other; an existing \<open>dst\<close> is replaced when it has the kind of \<open>src\<close> and, for a
  directory, is empty; everything below \<open>src\<close> moves with it.
\<close>

definition below :: "path \<Rightarrow> path \<Rightarrow> bool" where
  "below d q = (prefix (os_path_join d []) q \<and> q \<noteq> d)"

definition move_path :: "path \<Rightarrow> path \<Rightarrow> path \<Rightarrow> path" where
  "move_path src dst q =
     (if q = src then dst
      else if below src q then os_path_join dst [] @ drop (length (os_path_join src [])) q
      else q)"

definition os_rename :: "path \<Rightarrow> path \<Rightarrow> filesystem \<Rightarrow> error + filesystem" where
  "os_rename src dst fs =
     (case map_of fs src of
        None \<Rightarrow> Inl OSError
      | Some k \<Rightarrow>
          if src = dst then Inr fs
          else if below src dst \<or> below dst src then Inl OSError
          else if os_path_exists fs dst \<and>
                  (map_of fs dst \<noteq> Some k \<or> (k = Dir \<and> dir_entries fs dst \<noteq> []))
          then Inl OSError
          else Inr (map (\<lambda>e. (move_path src dst (fst e), snd e)) (delete_path dst fs)))"

text \<open>\<open>os.makedirs(p)\<close>: raises when \<open>p\<close> exists; missing ancestors stay implicit.\<close>

definition os_makedirs :: "path \<Rightarrow> filesystem \<Rightarrow> error + filesystem" where
  "os_makedirs p fs = (if os_path_exists fs p then Inl OSError else Inr (fs @ [(p, Dir)]))"

subsection \<open>Entities\<close>

record datetime =
  year :: nat
  month :: nat
  day :: nat
  hour :: nat
  minute :: nat
  second :: nat
  microsecond :: nat

record project =
  p_id :: int
  p_name :: string
  p_gid :: string

record data_type =
  d_gid :: string
  d_type :: string
  fk_from_operation :: pyval

record algorithm =
  algo_id :: int

datatype status = STATUS_PENDING | STATUS_STARTED | STATUS_FINISHED | STATUS_CANCELED | STATUS_ERROR

record operation =
  o_id :: pyval
  view_model_gid :: "string option"
  fk_launched_by :: "int option"
  fk_launched_in :: int
  fk_from_algo :: int
  o_project :: "project option"
  o_algorithm :: "algorithm option"
  o_status :: status
  start_date :: "datetime option"
  completion_date :: "datetime option"

record burst =
  b_gid :: string
  b_project :: project
  fk_simulation :: int
  simulator_gid :: string

subsection \<open>The archive under construction\<close>

text \<open>
  \<open>TvbZip\<close> is not among the sources; the model keeps the requests sent to it, in order.
\<close>

datatype zip_entry =
    ZipFolder path string "pyval list"
  | ZipArc path string

record tvb_zip =
  zip_dest :: path
  zip_mode :: string
  zip_entries :: "zip_entry list"
  zip_closed :: bool

subsection \<open>Collaborators\<close>

type_synonym export_result = "string \<times> path \<times> bool"

record exporter =
  accepts :: "data_type \<Rightarrow> bool"
  export :: "data_type \<Rightarrow> path \<Rightarrow> project \<Rightarrow> filesystem \<Rightarrow> (error + export_result) \<times> filesystem"

record env =
  \<comment> \<open>FilesHelper\<close>
  get_project_folder :: "string \<Rightarrow> string list \<Rightarrow> path"
  get_operation_folder :: "string \<Rightarrow> pyval \<Rightarrow> path"
  get_project_meta_file_path :: "string \<Rightarrow> path"
  rename_project_structure :: "string \<Rightarrow> string \<Rightarrow> filesystem \<Rightarrow> (error + unit) \<times> filesystem"
  remove_project_structure :: "string \<Rightarrow> filesystem \<Rightarrow> (error + unit) \<times> filesystem"
  remove_folder :: "path \<Rightarrow> filesystem \<Rightarrow> (error + unit) \<times> filesystem"
  check_created :: "path \<Rightarrow> filesystem \<Rightarrow> (error + unit) \<times> filesystem"
  copy_file :: "path \<Rightarrow> path \<Rightarrow> filesystem \<Rightarrow> (error + unit) \<times> filesystem"
  \<comment> \<open>DataEncryptionHandler\<close>
  encryption_enabled :: bool
  is_in_usage :: "path \<Rightarrow> bool"
  compute_encrypted_folder_path :: "path \<Rightarrow> path"
  project_key_path :: "int \<Rightarrow> path"
  \<comment> \<open>EncryptionHandler\<close>
  get_encrypted_dir :: "string \<Rightarrow> path"
  get_password_file :: "string \<Rightarrow> path"
  \<comment> \<open>datetime.now(), by the number of earlier readings\<close>
  clock :: "nat \<Rightarrow> datetime"
  \<comment> \<open>TvbProfile.current.TVB_STORAGE\<close>
  tvb_storage :: path
  \<comment> \<open>the exporters registered by ExportManager.__init__\<close>
  tvb_exporter :: exporter
  tvb_linked_exporter :: exporter
  \<comment> \<open>dao, ProjectService\<close>
  get_operations_with_error_in_project :: "int \<Rightarrow> operation list"
  get_linked_datatypes_storage_path :: "project \<Rightarrow> path list"
  get_algorithm_by_module :: "string \<Rightarrow> string \<Rightarrow> algorithm option"
  tvb_importer_module :: string
  tvb_importer_class :: string
  get_burst_by_id :: "int \<Rightarrow> burst option"
  \<comment> \<open>h5, H5File\<close>
  gather_references_of_view_model ::
    "string \<Rightarrow> path \<Rightarrow> filesystem \<Rightarrow> (error + path list \<times> path list) \<times> filesystem"
  determine_filepath :: "string \<Rightarrow> path \<Rightarrow> path"
  remove_metadata_param :: "path \<Rightarrow> string \<Rightarrow> filesystem \<Rightarrow> (error + unit) \<times> filesystem"

subsection \<open>The state the two classes work on\<close>

text \<open>
  \<open>files\<close> is the disk; \<open>tvb_zip\<close> and \<open>encryption_handler\<close> are the lazily set
  attributes of the \<open>StorageInterface\<close> instance (\<open>None\<close> after \<open>__init__\<close>); \<open>ticks\<close>
  counts the readings of the clock.
\<close>

record world =
  files :: filesystem
  tvb_zip :: "tvb_zip option"
  encryption_handler :: "string option"
  ticks :: nat

subsection \<open>StorageInterface.get_h5_by_gid\<close>

text \<open>
  The loop over \<open>os.listdir(op_path)\<close>: the first name that contains the gid and is a
  regular file is returned as a path; falling off the loop returns \<open>None\<close>.
\<close>

fun first_h5 :: "filesystem \<Rightarrow> path \<Rightarrow> string \<Rightarrow> string list \<Rightarrow> path option" where
  "first_h5 fs op_path dt_gid [] = None"
| "first_h5 fs op_path dt_gid (f # rest) =
     (let fp = os_path_join op_path f
      in if sublist dt_gid f \<and> os_path_isfile fs fp then Some fp
         else first_h5 fs op_path dt_gid rest)"

definition get_h5_by_gid :: "env \<Rightarrow> string \<Rightarrow> pyval \<Rightarrow> string \<Rightarrow> world \<Rightarrow> error + path option" where
  "get_h5_by_gid E project_name op_id dt_gid w =
     (let op_path = get_operation_folder E project_name op_id
      in case os_listdir (files w) op_path of
           Inl e \<Rightarrow> Inl e
         | Inr names \<Rightarrow> Inr (first_h5 (files w) op_path dt_gid names))"


subsection \<open>StorageInterface: project rename and removal\<close>

definition update_files :: "world \<Rightarrow> filesystem \<Rightarrow> world" where
  "update_files w fs' = w\<lparr>files := fs'\<rparr>"

text \<open>
  \<open>rename_project\<close>: the guard raises when encryption is on and \<open>is_in_usage\<close> answers
  \<open>False\<close>; then the plaintext structure is renamed, and the encrypted counterpart, if
  it exists at that moment, is renamed with \<open>os.rename\<close>.
\<close>

definition rename_project :: "env \<Rightarrow> string \<Rightarrow> string \<Rightarrow> world \<Rightarrow> (error + unit) \<times> world" where
  "rename_project E current_proj_name new_name w =
     (let project_folder = get_project_folder E current_proj_name []
      in if encryption_enabled E \<and> \<not> is_in_usage E project_folder
         then (Inl RenameWhileSyncEncryptingException, w)
         else
           (case rename_project_structure E current_proj_name new_name (files w) of
              (Inl e, fs1) \<Rightarrow> (Inl e, update_files w fs1)
            | (Inr u, fs1) \<Rightarrow>
                (let encrypted_path = compute_encrypted_folder_path E project_folder
                 in if os_path_exists fs1 encrypted_path
                    then
                      (let new_encrypted_path =
                             compute_encrypted_folder_path E (get_project_folder E new_name [])
                       in case os_rename encrypted_path new_encrypted_path fs1 of
                            Inl e \<Rightarrow> (Inl e, update_files w fs1)
                          | Inr fs2 \<Rightarrow> (Inr (), update_files w fs2))
                    else (Inr (), update_files w fs1))))"

text \<open>
  \<open>remove_project\<close>: three steps in sequence, with no handler around them, so an
  exception of a step ends the call in the state that step left.
\<close>

definition remove_encrypted_folder :: "env \<Rightarrow> path \<Rightarrow> filesystem \<Rightarrow> (error + unit) \<times> filesystem" where
  "remove_encrypted_folder E encrypted_path fs1 =
     (if os_path_exists fs1 encrypted_path then remove_folder E encrypted_path fs1
      else (Inr (), fs1))"

definition remove_project_key :: "env \<Rightarrow> int \<Rightarrow> filesystem \<Rightarrow> (error + unit) \<times> filesystem" where
  "remove_project_key E pid fs2 =
     (if os_path_exists fs2 (project_key_path E pid)
      then (case os_remove (project_key_path E pid) fs2 of
              Inl e \<Rightarrow> (Inl e, fs2)
            | Inr fs3 \<Rightarrow> (Inr (), fs3))
      else (Inr (), fs2))"

definition remove_project :: "env \<Rightarrow> project \<Rightarrow> world \<Rightarrow> (error + unit) \<times> world" where
  "remove_project E project w =
     (let project_folder = get_project_folder E (p_name project) []
      in case remove_project_structure E (p_name project) (files w) of
           (Inl e, fs1) \<Rightarrow> (Inl e, update_files w fs1)
         | (Inr u, fs1) \<Rightarrow>
             (let encrypted_path = compute_encrypted_folder_path E project_folder
              in case remove_encrypted_folder E encrypted_path fs1 of
                   (Inl e, fs2) \<Rightarrow> (Inl e, update_files w fs2)
                 | (Inr u', fs2) \<Rightarrow>
                     (case remove_project_key E (p_id project) fs2 of
                        (r, fs3) \<Rightarrow> (r, update_files w fs3))))"

subsection \<open>StorageInterface.cleanup\<close>

definition remove_tree :: "path \<Rightarrow> filesystem \<Rightarrow> filesystem" where
  "remove_tree p fs = filter (\<lambda>e. fst e \<noteq> p \<and> \<not> below p (fst e)) fs"

text \<open>
  Modelled from the spec: \<open>EncryptionHandler.cleanup\<close>, whose class is not among the
  sources. The spec: each \<open>dir_gid\<close> maps to one encrypted-directory path and one
  password-file path; cleanup deletes both the encrypted payload and the key material, and
  on an already-clean directory it is a no-op, not an error.
\<close>

definition encryption_handler_cleanup :: "env \<Rightarrow> string \<Rightarrow> filesystem \<Rightarrow> filesystem" where
  "encryption_handler_cleanup E dir_gid fs0 =
     (let fs1 = (if os_path_exists fs0 (get_encrypted_dir E dir_gid)
                 then remove_tree (get_encrypted_dir E dir_gid) fs0 else fs0)
      in if os_path_exists fs1 (get_password_file E dir_gid)
         then delete_path (get_password_file E dir_gid) fs1 else fs1)"

text \<open>
  \<open>StorageInterface.cleanup\<close>: builds the handler for \<open>dir_gid\<close>, keeps it in the
  attribute, and calls its \<open>cleanup\<close>.
\<close>

definition cleanup :: "env \<Rightarrow> string \<Rightarrow> world \<Rightarrow> (error + unit) \<times> world" where
  "cleanup E dir_gid w =
     (Inr (), w\<lparr>encryption_handler := Some dir_gid,
                files := encryption_handler_cleanup E dir_gid (files w)\<rparr>)"

subsection \<open>StorageInterface: the archive attribute\<close>

definition initialize_tvb_zip :: "path \<Rightarrow> string \<Rightarrow> world \<Rightarrow> world" where
  "initialize_tvb_zip dest_path mode w =
     w\<lparr>tvb_zip := Some \<lparr>zip_dest = dest_path, zip_mode = mode, zip_entries = [], zip_closed = False\<rparr>\<rparr>"

text \<open>
  The three methods below call a method of \<open>self.tvb_zip\<close>; while the attribute is \<open>None\<close>
  that is an \<open>AttributeError\<close>.
\<close>

definition add_zip_entry :: "zip_entry \<Rightarrow> world \<Rightarrow> (error + unit) \<times> world" where
  "add_zip_entry x w =
     (case tvb_zip w of
        None \<Rightarrow> (Inl AttributeError, w)
      | Some z \<Rightarrow> (Inr (), w\<lparr>tvb_zip := Some (z\<lparr>zip_entries := zip_entries z @ [x]\<rparr>)\<rparr>))"

definition write_zip_folder :: "path \<Rightarrow> string \<Rightarrow> pyval list \<Rightarrow> world \<Rightarrow> (error + unit) \<times> world" where
  "write_zip_folder folder archive_path_prefix exclude w =
     add_zip_entry (ZipFolder folder archive_path_prefix exclude) w"

definition write_zip_arc :: "path \<Rightarrow> string \<Rightarrow> world \<Rightarrow> (error + unit) \<times> world" where
  "write_zip_arc file_name arc w = add_zip_entry (ZipArc file_name arc) w"

definition close_tvb_zip :: "world \<Rightarrow> (error + unit) \<times> world" where
  "close_tvb_zip w =
     (case tvb_zip w of
        None \<Rightarrow> (Inl AttributeError, w)
      | Some z \<Rightarrow> (Inr (), w\<lparr>tvb_zip := Some (z\<lparr>zip_closed := True\<rparr>)\<rparr>))"

subsection \<open>StorageInterface.build_data_export_folder\<close>

definition now :: "env \<Rightarrow> world \<Rightarrow> datetime \<times> world" where
  "now E w = (clock E (ticks w), w\<lparr>ticks := Suc (ticks w)\<rparr>)"

text \<open>\<open>"%d-%d-%d_%d-%d-%d_%d" % (year, month, day, hour, minute, second, microsecond)\<close>\<close>

definition date_str_micro :: "datetime \<Rightarrow> string" where
  "date_str_micro t =
     string_of_nat (year t) @ ''-'' @ string_of_nat (month t) @ ''-'' @ string_of_nat (day t)
     @ ''_'' @ string_of_nat (hour t) @ ''-'' @ string_of_nat (minute t) @ ''-''
     @ string_of_nat (second t) @ ''_'' @ string_of_nat (microsecond t)"

definition zero_pad :: "nat \<Rightarrow> string \<Rightarrow> string" where
  "zero_pad k s = replicate (k - length s) CHR ''0'' @ s"

text \<open>\<open>strftime("%Y-%m-%d_%H-%M")\<close>\<close>

definition date_str_minute :: "datetime \<Rightarrow> string" where
  "date_str_minute t =
     zero_pad 4 (string_of_nat (year t)) @ ''-'' @ zero_pad 2 (string_of_nat (month t)) @ ''-''
     @ zero_pad 2 (string_of_nat (day t)) @ ''_'' @ zero_pad 2 (string_of_nat (hour t)) @ ''-''
     @ zero_pad 2 (string_of_nat (minute t))"

text \<open>
  The parameter \<open>data\<close> is read only through \<open>data.gid\<close>; the model takes the gid.
\<close>

definition build_data_export_folder :: "env \<Rightarrow> string \<Rightarrow> path \<Rightarrow> world \<Rightarrow> (error + path) \<times> world" where
  "build_data_export_folder E data_gid export_folder w =
     (case now E w of
        (t, w1) \<Rightarrow>
          (let tmp_str = date_str_micro t @ ''@'' @ data_gid;
               data_export_folder = os_path_join export_folder tmp_str
           in case check_created E data_export_folder (files w1) of
                (Inl e, fs') \<Rightarrow> (Inl e, update_files w1 fs')
              | (Inr u, fs') \<Rightarrow> (Inr data_export_folder, update_files w1 fs')))"

subsection \<open>ExportManager.export_data\<close>

definition EXPORT_FOLDER_NAME :: string where
  "EXPORT_FOLDER_NAME = ''EXPORT_TMP''"

definition export_folder :: "env \<Rightarrow> path" where
  "export_folder E = os_path_join (tvb_storage E) EXPORT_FOLDER_NAME"

text \<open>
  \<open>all_exporters\<close> after \<open>__init__\<close>: the two exporters, under their class names.
\<close>

definition all_exporters :: "env \<Rightarrow> (string \<times> exporter) list" where
  "all_exporters E = [(''TVBExporter'', tvb_exporter E), (''TVBLinkedExporter'', tvb_linked_exporter E)]"

text \<open>
  The \<open>finally\<close> block, for a folder that was built: an empty folder is removed.
\<close>

definition remove_if_empty :: "path \<Rightarrow> world \<Rightarrow> (error + unit) \<times> world" where
  "remove_if_empty data_export_folder w =
     (case os_listdir (files w) data_export_folder of
        Inl e \<Rightarrow> (Inl e, w)
      | Inr names \<Rightarrow>
          if length names = 0
          then (case os_rmdir data_export_folder (files w) of
                  Inl e \<Rightarrow> (Inl e, w)
                | Inr fs' \<Rightarrow> (Inr (), update_files w fs'))
          else (Inr (), w))"

text \<open>
  The \<open>try\<close> statement. When \<open>build_data_export_folder\<close> raises, \<open>data_export_folder\<close>
  is still \<open>None\<close> and the \<open>finally\<close> block does nothing. Otherwise the block runs after
  \<open>exporter.export\<close>, whether that returned or raised; an exception of the block itself
  replaces the outcome of the export.
\<close>

definition export_in_folder :: "env \<Rightarrow> exporter \<Rightarrow> data_type \<Rightarrow> project \<Rightarrow> world \<Rightarrow> (error + export_result) \<times> world" where
  "export_in_folder E exporter data project w =
     (case build_data_export_folder E (d_gid data) (export_folder E) w of
        (Inl e, w1) \<Rightarrow> (Inl e, w1)
      | (Inr data_export_folder, w1) \<Rightarrow>
          (case export exporter data data_export_folder project (files w1) of
             (export_data, fs2) \<Rightarrow>
               (case remove_if_empty data_export_folder (update_files w1 fs2) of
                  (Inl e, w3) \<Rightarrow> (Inl e, w3)
                | (Inr u, w3) \<Rightarrow> (export_data, w3))))"

definition export_data :: "env \<Rightarrow> data_type option \<Rightarrow> string option \<Rightarrow> project option \<Rightarrow> world \<Rightarrow> (error + export_result) \<times> world" where
  "export_data E data exporter_id project w =
     (case data of
        None \<Rightarrow> (Inl InvalidExportDataException, w)
      | Some d \<Rightarrow>
          (case exporter_id of
             None \<Rightarrow> (Inl ExportException, w)
           | Some eid \<Rightarrow>
               (case map_of (all_exporters E) eid of
                  None \<Rightarrow> (Inl ExportException, w)
                | Some exporter \<Rightarrow>
                    (case project of
                       None \<Rightarrow> (Inl ExportException, w)
                     | Some p \<Rightarrow>
                         if \<not> accepts exporter d then (Inl InvalidExportDataException, w)
                         else export_in_folder E exporter d p w))))"

subsection \<open>ExportManager: linked datatypes\<close>

text \<open>
  Modelled from the spec: the class \<open>model_operation.Operation\<close>, which is not among the
  sources. Its constructor takes the view-model gid, the launching user, the project id
  and the algorithm id; \<open>start_now\<close> and \<open>mark_complete\<close> set the start and the completion
  timestamp to now, together with the status (the spec: a completed pseudo-operation
  record, start/complete timestamps set to now).
\<close>

definition Operation :: "string option \<Rightarrow> int option \<Rightarrow> int \<Rightarrow> int \<Rightarrow> operation" where
  "Operation vm_gid launched_by launched_in from_algo =
     \<lparr>o_id = PyNone, view_model_gid = vm_gid, fk_launched_by = launched_by,
      fk_launched_in = launched_in, fk_from_algo = from_algo, o_project = None,
      o_algorithm = None, o_status = STATUS_FINISHED, start_date = None,
      completion_date = None\<rparr>"

definition start_now :: "env \<Rightarrow> operation \<Rightarrow> world \<Rightarrow> operation \<times> world" where
  "start_now E op w =
     (case now E w of (t, w1) \<Rightarrow> (op\<lparr>start_date := Some t, o_status := STATUS_STARTED\<rparr>, w1))"

definition mark_complete :: "env \<Rightarrow> status \<Rightarrow> operation \<Rightarrow> world \<Rightarrow> operation \<times> world" where
  "mark_complete E st op w =
     (case now E w of (t, w1) \<Rightarrow> (op\<lparr>completion_date := Some t, o_status := st\<rparr>, w1))"

text \<open>
  \<open>ExportManager._export_linked_datatypes\<close>. A project without linked paths gives
  \<open>(None, None)\<close>. \<open>algo.id\<close> on a missing algorithm is an \<open>AttributeError\<close>.
\<close>

definition em_export_linked_datatypes ::
    "env \<Rightarrow> project \<Rightarrow> world \<Rightarrow> (error + path list option \<times> operation option) \<times> world" where
  "em_export_linked_datatypes E project w =
     (let linked_paths = get_linked_datatypes_storage_path E project
      in if linked_paths = [] then (Inr (None, None), w)
         else
           (case get_algorithm_by_module E (tvb_importer_module E) (tvb_importer_class E) of
              None \<Rightarrow> (Inl AttributeError, w)
            | Some algo \<Rightarrow>
                (let op0 = Operation None None (p_id project) (algo_id algo);
                     op1 = op0\<lparr>o_project := Some project, o_algorithm := Some algo,
                               o_id := PyStr ''links-to-external-projects''\<rparr>
                 in case start_now E op1 w of
                      (op2, w1) \<Rightarrow>
                        (case mark_complete E STATUS_FINISHED op2 w1 of
                           (op3, w2) \<Rightarrow> (Inr (Some linked_paths, Some op3), w2)))))"

subsection \<open>StorageInterface.export_datatypes\<close>

text \<open>The loop: every path goes into the archive under the folder name of the operation.\<close>

fun write_linked :: "string \<Rightarrow> path list \<Rightarrow> world \<Rightarrow> (error + unit) \<times> world" where
  "write_linked op_folder_name [] w = (Inr (), w)"
| "write_linked op_folder_name (pth # rest) w =
     (let zip_pth = op_folder_name @ ''/'' @ os_path_basename pth
      in case write_zip_arc pth zip_pth w of
           (Inl e, w1) \<Rightarrow> (Inl e, w1)
         | (Inr u, w1) \<Rightarrow> write_linked op_folder_name rest w1)"

text \<open>
  \<open>export_datatypes(paths, operation)\<close>; reading \<open>operation.project.name\<close> from \<open>None\<close>
  is an \<open>AttributeError\<close>.
\<close>

definition export_datatypes :: "env \<Rightarrow> path list \<Rightarrow> operation option \<Rightarrow> world \<Rightarrow> (error + unit) \<times> world" where
  "export_datatypes E paths operation w =
     (case operation of
        None \<Rightarrow> (Inl AttributeError, w)
      | Some opn \<Rightarrow>
          (case o_project opn of
             None \<Rightarrow> (Inl AttributeError, w)
           | Some prj \<Rightarrow>
               (let op_folder = get_operation_folder E (p_name prj) (o_id opn);
                    op_folder_name = os_path_basename op_folder
                in case write_linked op_folder_name paths w of
                     (Inl e, w1) \<Rightarrow> (Inl e, w1)
                   | (Inr u, w1) \<Rightarrow>
                       (case remove_folder E op_folder (files w1) of
                          (r, fs2) \<Rightarrow> (r, update_files w1 fs2)))))"

subsection \<open>StorageInterface.export_project\<close>

record pack =
  folder :: path
  archive_path_prefix :: string
  exclude :: "pyval list"

text \<open>
  The loop of the optimized mode, with its two accumulators \<open>to_be_exported_folders\<close> and
  \<open>considered_op_ids\<close>.
\<close>

fun collect_packs :: "env \<Rightarrow> project \<Rightarrow> pyval list \<Rightarrow> data_type list \<Rightarrow> pack list \<Rightarrow> pyval list \<Rightarrow> pack list \<times> pyval list" where
  "collect_packs E project folders_to_exclude [] to_be_exported_folders considered_op_ids =
     (to_be_exported_folders, considered_op_ids)"
| "collect_packs E project folders_to_exclude (dt # rest) to_be_exported_folders considered_op_ids =
     (let op_id = fk_from_operation dt
      in if op_id \<notin> set considered_op_ids
         then collect_packs E project folders_to_exclude rest
                (to_be_exported_folders @
                   [\<lparr>folder = get_project_folder E (p_name project) [str op_id],
                     archive_path_prefix = str op_id @ os_sep,
                     exclude = folders_to_exclude\<rparr>])
                (considered_op_ids @ [op_id])
         else collect_packs E project folders_to_exclude rest to_be_exported_folders considered_op_ids)"

fun write_packs :: "pack list \<Rightarrow> world \<Rightarrow> (error + unit) \<times> world" where
  "write_packs [] w = (Inr (), w)"
| "write_packs (pk # rest) w =
     (case write_zip_folder (folder pk) (archive_path_prefix pk) (exclude pk) w of
        (Inl e, w1) \<Rightarrow> (Inl e, w1)
      | (Inr u, w1) \<Rightarrow> write_packs rest w1)"

definition ZIP_FILE_EXTENSION :: string where
  "ZIP_FILE_EXTENSION = ''zip''"

text \<open>
  Modelled from the spec: \<open>XMLWriter.FILE_EXTENSION\<close>, a constant of a class that is not
  among the sources; the spec names the project metadata file \<open>Project.xml\<close>.
\<close>

definition TVB_FILE_EXTENSION :: string where
  "TVB_FILE_EXTENSION = ''.xml''"

definition TVB_PROJECT_FILE :: string where
  "TVB_PROJECT_FILE = ''Project'' @ TVB_FILE_EXTENSION"

definition packs_to_export :: "env \<Rightarrow> project \<Rightarrow> data_type list \<Rightarrow> pyval list \<Rightarrow> bool \<Rightarrow> pack list" where
  "packs_to_export E project project_datatypes folders_to_exclude optimize_size =
     (if optimize_size
      then fst (collect_packs E project folders_to_exclude project_datatypes [] [])
      else [\<lparr>folder = get_project_folder E (p_name project) [],
             archive_path_prefix = [],
             exclude = folders_to_exclude @ [PyStr ''TEMP'']\<rparr>])"

definition write_linked_part :: "env \<Rightarrow> path list option \<Rightarrow> operation option \<Rightarrow> world \<Rightarrow> (error + unit) \<times> world" where
  "write_linked_part E linked_paths op w =
     (case linked_paths of
        None \<Rightarrow> (Inr (), w)
      | Some paths \<Rightarrow> export_datatypes E paths op w)"

definition write_project_xml :: "env \<Rightarrow> project \<Rightarrow> bool \<Rightarrow> world \<Rightarrow> (error + unit) \<times> world" where
  "write_project_xml E project optimize_size w =
     (if optimize_size
      then write_zip_arc (get_project_meta_file_path E (p_name project)) TVB_PROJECT_FILE w
      else (Inr (), w))"

definition si_export_project ::
    "env \<Rightarrow> project \<Rightarrow> data_type list \<Rightarrow> pyval list \<Rightarrow> path \<Rightarrow> path list option \<Rightarrow> operation option \<Rightarrow> bool
       \<Rightarrow> world \<Rightarrow> (error + path) \<times> world" where
  "si_export_project E project project_datatypes folders_to_exclude export_folder0 linked_paths op
       optimize_size w =
     (let to_be_exported_folders =
            packs_to_export E project project_datatypes folders_to_exclude optimize_size
      in case now E w of
           (t, w0) \<Rightarrow>
             (let zip_file_name =
                    date_str_minute t @ ''_'' @ p_name project @ ''.'' @ ZIP_FILE_EXTENSION
              in case build_data_export_folder E (p_gid project) export_folder0 w0 of
                   (Inl e, w1) \<Rightarrow> (Inl e, w1)
                 | (Inr export_folder1, w1) \<Rightarrow>
                     (let result_path = os_path_join export_folder1 zip_file_name;
                          w2 = initialize_tvb_zip result_path ''w'' w1
                      in case write_packs to_be_exported_folders w2 of
                           (Inl e, w3) \<Rightarrow> (Inl e, w3)
                         | (Inr u, w3) \<Rightarrow>
                             (case write_linked_part E linked_paths op w3 of
                                (Inl e, w4) \<Rightarrow> (Inl e, w4)
                              | (Inr u', w4) \<Rightarrow>
                                  (case write_project_xml E project optimize_size w4 of
                                     (Inl e, w5) \<Rightarrow> (Inl e, w5)
                                   | (Inr u'', w5) \<Rightarrow>
                                       (case close_tvb_zip w5 of
                                          (Inl e, w6) \<Rightarrow> (Inl e, w6)
                                        | (Inr u''', w6) \<Rightarrow> (Inr result_path, w6)))))))"

subsection \<open>ExportManager.export_project\<close>

text \<open>\<open>_get_op_with_errors\<close>: the ids of the operations the dao reports with an error.\<close>

definition get_op_with_errors :: "env \<Rightarrow> int \<Rightarrow> pyval list" where
  "get_op_with_errors E pid = map o_id (get_operations_with_error_in_project E pid)"

text \<open>
  \<open>StorageInterface.export_project\<close> declares seven parameters after \<open>self\<close>, none with
  a default: \<open>project\<close>, \<open>project_datatypes\<close>, \<open>folders_to_exclude\<close>, \<open>export_folder\<close>,
  \<open>linked_paths\<close>, \<open>op\<close>, \<open>optimize_size\<close>. \<open>ExportManager.export_project\<close> calls it
  with five positional arguments (\<open>project\<close>, \<open>folders_to_exclude\<close>, \<open>self.export_folder\<close>,
  \<open>linked_paths\<close>, \<open>op\<close>), which leaves \<open>op\<close> and \<open>optimize_size\<close> unbound: Python raises
  \<open>TypeError\<close> at the call, before the body runs.
\<close>

definition em_export_project :: "env \<Rightarrow> project option \<Rightarrow> world \<Rightarrow> (error + path) \<times> world" where
  "em_export_project E project w =
     (case project of
        None \<Rightarrow> (Inl ExportException, w)
      | Some p \<Rightarrow>
          (let folders_to_exclude = get_op_with_errors E (p_id p)
           in case em_export_linked_datatypes E p w of
                (Inl e, w1) \<Rightarrow> (Inl e, w1)
              | (Inr (linked_paths, op), w1) \<Rightarrow> (Inl TypeError, w1)))"

subsection \<open>ExportManager.export_simulator_configuration\<close>

definition EXPORTED_SIMULATION_NAME :: string where
  "EXPORTED_SIMULATION_NAME = ''exported_simulation''"

definition EXPORTED_SIMULATION_DTS_DIR :: string where
  "EXPORTED_SIMULATION_DTS_DIR = ''datatypes''"

text \<open>The two copy loops; \<open>dest_dir\<close> is the folder the base names are joined to.\<close>

fun copy_all :: "env \<Rightarrow> path \<Rightarrow> path list \<Rightarrow> filesystem \<Rightarrow> (error + unit) \<times> filesystem" where
  "copy_all E dest_dir [] fs = (Inr (), fs)"
| "copy_all E dest_dir (src # rest) fs =
     (let dest = os_path_join dest_dir (os_path_basename src)
      in case copy_file E src dest fs of
           (Inl e, fs1) \<Rightarrow> (Inl e, fs1)
         | (Inr u, fs1) \<Rightarrow> copy_all E dest_dir rest fs1)"

definition make_sim_folder :: "path \<Rightarrow> filesystem \<Rightarrow> error + filesystem" where
  "make_sim_folder tmp_sim_folder fs =
     (if \<not> os_path_exists fs tmp_sim_folder then os_makedirs tmp_sim_folder fs else Inr fs)"

text \<open>
  What is staged in \<open>tmp_sim_folder\<close>: the view models, the datatypes, and the metadata
  change on the main view model.
\<close>

definition stage_simulation :: "env \<Rightarrow> burst \<Rightarrow> path \<Rightarrow> path \<Rightarrow> filesystem \<Rightarrow> (error + unit) \<times> filesystem" where
  "stage_simulation E burst op_folder tmp_sim_folder fs1 =
     (case make_sim_folder tmp_sim_folder fs1 of
        Inl e \<Rightarrow> (Inl e, fs1)
      | Inr fs2 \<Rightarrow>
          (case gather_references_of_view_model E (simulator_gid burst) op_folder fs2 of
             (Inl e, fs3) \<Rightarrow> (Inl e, fs3)
           | (Inr (vm_paths, all_datatype_paths), fs3) \<Rightarrow>
               (let burst_path = determine_filepath E (b_gid burst) op_folder;
                    all_view_model_paths = vm_paths @ [burst_path]
                in case copy_all E tmp_sim_folder all_view_model_paths fs3 of
                     (Inl e, fs4) \<Rightarrow> (Inl e, fs4)
                   | (Inr u, fs4) \<Rightarrow>
                       (case copy_all E (os_path_join tmp_sim_folder EXPORTED_SIMULATION_DTS_DIR)
                               all_datatype_paths fs4 of
                          (Inl e, fs5) \<Rightarrow> (Inl e, fs5)
                        | (Inr u', fs5) \<Rightarrow>
                            (let main_vm_path =
                                   determine_filepath E (simulator_gid burst) tmp_sim_folder
                             in remove_metadata_param E main_vm_path ''history_gid'' fs5)))))"

text \<open>
  The last part calls \<open>StorageInterface.write_zip_folder(result_path, tmp_sim_folder)\<close>:
  \<open>result_path\<close> is bound to \<open>folder\<close>, \<open>tmp_sim_folder\<close> to \<open>archive_path_prefix\<close>, and
  \<open>exclude\<close> takes its default \<open>[]\<close>; nothing in this method sets \<open>self.tvb_zip\<close>.
\<close>

definition export_simulator_configuration :: "env \<Rightarrow> int \<Rightarrow> world \<Rightarrow> (error + path) \<times> world" where
  "export_simulator_configuration E burst_id w =
     (case get_burst_by_id E burst_id of
        None \<Rightarrow> (Inl InvalidExportDataException, w)
      | Some burst \<Rightarrow>
          (let op_folder = get_project_folder E (p_name (b_project burst))
                             [str (PyInt (fk_simulation burst))]
           in case build_data_export_folder E (b_gid burst) (export_folder E) w of
                (Inl e, w1) \<Rightarrow> (Inl e, w1)
              | (Inr tmp_export_folder, w1) \<Rightarrow>
                  (let tmp_sim_folder = os_path_join tmp_export_folder EXPORTED_SIMULATION_NAME
                   in case stage_simulation E burst op_folder tmp_sim_folder (files w1) of
                        (Inl e, fs2) \<Rightarrow> (Inl e, update_files w1 fs2)
                      | (Inr u, fs2) \<Rightarrow>
                          (case now E (update_files w1 fs2) of
                             (t, w3) \<Rightarrow>
                               (let zip_file_name =
                                      date_str_minute t @ ''_'' @ str (PyInt burst_id) @ ''.''
                                        @ ZIP_FILE_EXTENSION;
                                    result_path = os_path_join tmp_export_folder zip_file_name
                                in case write_zip_folder result_path tmp_sim_folder [] w3 of
                                     (Inl e, w4) \<Rightarrow> (Inl e, w4)
                                   | (Inr u', w4) \<Rightarrow>
                                       (case remove_folder E tmp_sim_folder (files w4) of
                                          (Inl e, fs5) \<Rightarrow> (Inl e, update_files w4 fs5)
                                        | (Inr u'', fs5) \<Rightarrow>
                                            (Inr result_path, update_files w4 fs5)))))))"

subsection \<open>A small installation, for concrete runs\<close>

text \<open>
  One choice of collaborators: projects under \<open>/tvb/PROJECTS\<close>, the encrypted counterpart of
  a folder beside it, keys under \<open>/tvb/KEYS\<close>. Encryption and the folders in use are the
  two arguments.
\<close>

definition sample_project_folder :: "string \<Rightarrow> string list \<Rightarrow> path" where
  "sample_project_folder nm subs = foldl os_path_join (os_path_join ''/tvb/PROJECTS'' nm) subs"

definition sample_remove_folder :: "path \<Rightarrow> filesystem \<Rightarrow> (error + unit) \<times> filesystem" where
  "sample_remove_folder p fs =
     (if os_path_isdir fs p then (Inr (), remove_tree p fs) else (Inl FileStructureException, fs))"

definition sample_rename_structure :: "string \<Rightarrow> string \<Rightarrow> filesystem \<Rightarrow> (error + unit) \<times> filesystem" where
  "sample_rename_structure old new fs =
     (case os_rename (sample_project_folder old []) (sample_project_folder new []) fs of
        Inl e \<Rightarrow> (Inl FileStructureException, fs)
      | Inr fs' \<Rightarrow> (Inr (), fs'))"

definition sample_check_created :: "path \<Rightarrow> filesystem \<Rightarrow> (error + unit) \<times> filesystem" where
  "sample_check_created p fs =
     (if os_path_exists fs p then (Inr (), fs) else (Inr (), fs @ [(p, Dir)]))"

definition sample_copy_file :: "path \<Rightarrow> path \<Rightarrow> filesystem \<Rightarrow> (error + unit) \<times> filesystem" where
  "sample_copy_file src dst fs =
     (if os_path_isfile fs src then (Inr (), delete_path dst fs @ [(dst, File)])
      else (Inl OSError, fs))"

definition writing_exporter :: exporter where
  "writing_exporter =
     \<lparr>accepts = (\<lambda>d. d_type d = ''TimeSeries''),
      export = (\<lambda>d dir p fs.
        (Inr (d_gid d @ ''.h5'', os_path_join dir (d_gid d @ ''.h5''), True),
         fs @ [(os_path_join dir (d_gid d @ ''.h5''), File)]))\<rparr>"

definition failing_exporter :: exporter where
  "failing_exporter =
     \<lparr>accepts = (\<lambda>d. True),
      export = (\<lambda>d dir p fs. (Inl ExportException, fs))\<rparr>"

definition sample_time :: "nat \<Rightarrow> datetime" where
  "sample_time n =
     \<lparr>year = 2021, month = 7, day = 5, hour = 9, minute = 30, second = n, microsecond = 0\<rparr>"

definition sample_env :: "bool \<Rightarrow> path list \<Rightarrow> env" where
  "sample_env enc used =
     \<lparr>get_project_folder = sample_project_folder,
      get_operation_folder = (\<lambda>nm i. sample_project_folder nm [str i]),
      get_project_meta_file_path = (\<lambda>nm. sample_project_folder nm [''Project.xml'']),
      rename_project_structure = sample_rename_structure,
      remove_project_structure =
        (\<lambda>nm fs. sample_remove_folder (sample_project_folder nm []) fs),
      remove_folder = sample_remove_folder,
      check_created = sample_check_created,
      copy_file = sample_copy_file,
      encryption_enabled = enc,
      is_in_usage = (\<lambda>p. p \<in> set used),
      compute_encrypted_folder_path = (\<lambda>p. p @ ''_encrypted''),
      project_key_path = (\<lambda>i. os_path_join ''/tvb/KEYS'' (string_of_int i)),
      get_encrypted_dir = (\<lambda>g. os_path_join ''/tvb/ENC'' g),
      get_password_file = (\<lambda>g. os_path_join ''/tvb/PASS'' g),
      clock = sample_time,
      tvb_storage = ''/tvb'',
      tvb_exporter = writing_exporter,
      tvb_linked_exporter = failing_exporter,
      get_operations_with_error_in_project = (\<lambda>i. []),
      get_linked_datatypes_storage_path =
        (\<lambda>p. if p_name p = ''Linked'' then [''/tvb/PROJECTS/Other/3/Conn_x1.h5''] else []),
      get_algorithm_by_module = (\<lambda>m c. Some \<lparr>algo_id = 1\<rparr>),
      tvb_importer_module = ''tvb.adapters.uploaders.tvb_importer'',
      tvb_importer_class = ''TVBImporter'',
      get_burst_by_id =
        (\<lambda>i. if i = 1
             then Some \<lparr>b_gid = ''b1'',
                        b_project = \<lparr>p_id = 1, p_name = ''P'', p_gid = ''g1''\<rparr>,
                        fk_simulation = 7, simulator_gid = ''s1''\<rparr>
             else None),
      gather_references_of_view_model = (\<lambda>g d fs. (Inr ([], []), fs)),
      determine_filepath = (\<lambda>g d. os_path_join d (g @ ''.h5'')),
      remove_metadata_param = (\<lambda>p k fs. (Inr (), fs))\<rparr>"

text \<open>
  The test the loop of \<open>get_h5_by_gid\<close> makes, as a property of a path: it names an entry
  of the operation folder, the entry's name contains the gid, and it is a regular file.
\<close>

definition is_h5_of :: "filesystem \<Rightarrow> path \<Rightarrow> string \<Rightarrow> path \<Rightarrow> bool" where
  "is_h5_of fs op_path dt_gid fp =
     (case entry_name op_path fp of
        None \<Rightarrow> False
      | Some f \<Rightarrow> sublist dt_gid f \<and> os_path_isfile fs fp)"

definition fresh_world :: "filesystem \<Rightarrow> world" where
  "fresh_world fs = \<lparr>files = fs, tvb_zip = None, encryption_handler = None, ticks = 0\<rparr>"

definition sample_project :: project where
  "sample_project = \<lparr>p_id = 1, p_name = ''P'', p_gid = ''g1''\<rparr>"

definition sample_files :: filesystem where
  "sample_files =
     [(''/tvb/PROJECTS/P'', Dir),
      (''/tvb/PROJECTS/P/7'', Dir),
      (''/tvb/PROJECTS/P/7/TimeSeries_abc.h5'', File),
      (''/tvb/PROJECTS/P/7/notes'', Dir),
      (''/tvb/PROJECTS/P/7/b1.h5'', File),
      (''/tvb/PROJECTS/P_encrypted'', Dir),
      (''/tvb/KEYS/1'', File)]"

subsection \<open>Reading the archive\<close>

text \<open>
  Two views of the requests an archive has received: the folders written into it, and the
  single files stored under the name of the project metadata file.
\<close>

fun is_folder_entry :: "zip_entry \<Rightarrow> bool" where
  "is_folder_entry (ZipFolder d pre ex) = True"
| "is_folder_entry (ZipArc f a) = False"

fun is_project_file_entry :: "zip_entry \<Rightarrow> bool" where
  "is_project_file_entry (ZipFolder d pre ex) = False"
| "is_project_file_entry (ZipArc f a) = (a = TVB_PROJECT_FILE)"

definition folder_entries :: "tvb_zip \<Rightarrow> zip_entry list" where
  "folder_entries z = filter is_folder_entry (zip_entries z)"

definition project_file_entries :: "tvb_zip \<Rightarrow> zip_entry list" where
  "project_file_entries z = filter is_project_file_entry (zip_entries z)"

section \<open>Properties\<close>

subsection \<open>Facts about the file system\<close>

lemma set_map_filter_eq:
  "set (List.map_filter g xs) = {y. \<exists>x \<in> set xs. g x = Some y}"
  by (induction xs) (auto split: option.splits)

lemma exists_iff_listed: "os_path_exists fs p \<longleftrightarrow> p \<in> fst ` set fs"
  by (simp add: os_path_exists_def map_of_eq_None_iff)

lemma isfile_listed: "os_path_isfile fs p \<Longrightarrow> p \<in> fst ` set fs"
  unfolding os_path_isfile_def by (metis map_of_eq_None_iff option.distinct(1))

lemma isdir_exists: "os_path_isdir fs p \<Longrightarrow> os_path_exists fs p"
  by (simp add: os_path_isdir_def os_path_exists_def)

lemma entry_name_join:
  assumes "entry_name d q = Some f"
  shows "os_path_join d f = q"
proof -
  let ?pre = "os_path_join d []"
  from assms have q: "take (length ?pre) q = ?pre"
    and f: "f = drop (length ?pre) q" and ne: "f \<noteq> []" and ns: "CHR ''/'' \<notin> set f"
    by (auto simp: entry_name_def Let_def split: if_splits)
  from q f have "q = ?pre @ f"
    by (metis append_take_drop_id)
  moreover from ne ns have "\<not> prefix ''/'' f"
    by (cases f) auto
  ultimately show "os_path_join d f = q"
    by (auto simp: os_path_join_def)
qed

lemma dir_entries_iff:
  "f \<in> set (dir_entries fs d) \<longleftrightarrow> (\<exists>q \<in> fst ` set fs. entry_name d q = Some f)"
  by (auto simp: dir_entries_def set_map_filter_eq)

lemma first_h5_Some:
  "first_h5 fs op_path dt_gid names = Some fp \<Longrightarrow>
     \<exists>f \<in> set names. fp = os_path_join op_path f \<and> sublist dt_gid f \<and> os_path_isfile fs fp"
  by (induction names) (auto simp: Let_def split: if_splits)

lemma first_h5_None:
  "first_h5 fs op_path dt_gid names = None \<longleftrightarrow>
     (\<forall>f \<in> set names. \<not> (sublist dt_gid f \<and> os_path_isfile fs (os_path_join op_path f)))"
  by (induction names) (auto simp: Let_def)

lemma first_h5_is_h5:
  assumes "first_h5 fs d g (dir_entries fs d) = Some fp"
  shows "is_h5_of fs d g fp"
proof -
  from first_h5_Some [OF assms] obtain f where f: "f \<in> set (dir_entries fs d)"
    and fp: "fp = os_path_join d f" and sub: "sublist g f" and isf: "os_path_isfile fs fp"
    by blast
  from f obtain q where "entry_name d q = Some f"
    by (auto simp: dir_entries_iff)
  with fp have "entry_name d fp = Some f"
    by (simp add: entry_name_join)
  with sub isf show ?thesis
    by (simp add: is_h5_of_def)
qed

lemma first_h5_none_is_h5:
  assumes "first_h5 fs d g (dir_entries fs d) = None"
  shows "\<not> is_h5_of fs d g q"
proof
  assume "is_h5_of fs d g q"
  then obtain f where en: "entry_name d q = Some f" and sub: "sublist g f"
    and isf: "os_path_isfile fs q"
    by (auto simp: is_h5_of_def split: option.splits)
  from isf have "q \<in> fst ` set fs" by (rule isfile_listed)
  with en have "f \<in> set (dir_entries fs d)"
    by (auto simp: dir_entries_iff)
  moreover from en have "os_path_join d f = q" by (rule entry_name_join)
  ultimately show False
    using assms sub isf by (auto simp: first_h5_None)
qed

subsection \<open>get_h5_by_gid\<close>

text \<open>
  Claim C10. When the operation folder exists as a directory, \<open>get_h5_by_gid\<close> returns
  without raising; a path it returns names a regular file among the entries of that folder
  whose name contains the gid, and it returns \<open>None\<close> only when the folder has no such
  file.
\<close>

theorem get_h5_by_gid_finds_file:
  assumes "os_path_isdir (files w) (get_operation_folder E project_name op_id)"
  shows "\<exists>r. get_h5_by_gid E project_name op_id dt_gid w = Inr r \<and>
           (case r of
              Some fp \<Rightarrow> is_h5_of (files w) (get_operation_folder E project_name op_id) dt_gid fp
            | None \<Rightarrow>
                (\<forall>q. \<not> is_h5_of (files w) (get_operation_folder E project_name op_id) dt_gid q))"
proof -
  let ?d = "get_operation_folder E project_name op_id"
  let ?r = "first_h5 (files w) ?d dt_gid (dir_entries (files w) ?d)"
  from assms have run: "get_h5_by_gid E project_name op_id dt_gid w = Inr ?r"
    by (simp add: get_h5_by_gid_def os_listdir_def Let_def)
  show ?thesis
  proof (cases ?r)
    case None
    with run show ?thesis
      by (auto dest: first_h5_none_is_h5)
  next
    case (Some fp)
    with run show ?thesis
      by (auto dest: first_h5_is_h5)
  qed
qed

theorem get_h5_by_gid_finds_file_witness:
  "os_path_isdir (files (fresh_world sample_files))
     (get_operation_folder (sample_env False []) ''P'' (PyInt 7))
   \<and> get_h5_by_gid (sample_env False []) ''P'' (PyInt 7) ''abc'' (fresh_world sample_files)
       = Inr (Some ''/tvb/PROJECTS/P/7/TimeSeries_abc.h5'')
   \<and> is_h5_of (files (fresh_world sample_files))
        (get_operation_folder (sample_env False []) ''P'' (PyInt 7)) ''abc''
        ''/tvb/PROJECTS/P/7/TimeSeries_abc.h5''"
proof -
  have h: "os_path_isdir (files (fresh_world sample_files))
     (get_operation_folder (sample_env False []) ''P'' (PyInt 7))"
    by code_simp
  have run: "get_h5_by_gid (sample_env False []) ''P'' (PyInt 7) ''abc'' (fresh_world sample_files)
       = Inr (Some ''/tvb/PROJECTS/P/7/TimeSeries_abc.h5'')"
    by code_simp
  from get_h5_by_gid_finds_file [OF h, of "''abc''"] run h show ?thesis
    by auto
qed

subsection \<open>rename_project\<close>

lemma os_rename_moves:
  assumes "os_rename src dst fs = Inr fs2"
  shows "os_path_exists fs2 dst" and "src \<noteq> dst \<Longrightarrow> \<not> os_path_exists fs2 src"
proof -
  from assms obtain k where k: "map_of fs src = Some k"
    by (auto simp: os_rename_def split: option.splits)
  then have src_in: "src \<in> fst ` set fs"
    by (metis map_of_eq_None_iff option.distinct(1))
  show "os_path_exists fs2 dst"
  proof (cases "src = dst")
    case True
    with assms k show ?thesis
      by (simp add: os_rename_def os_path_exists_def)
  next
    case False
    with assms k have fs2: "fs2 = map (\<lambda>e. (move_path src dst (fst e), snd e)) (delete_path dst fs)"
      by (auto simp: os_rename_def split: if_splits)
    from src_in False have "src \<in> fst ` set (delete_path dst fs)"
      by (auto simp: delete_path_def)
    then have "move_path src dst src \<in> fst ` set fs2"
      unfolding fs2 by force
    then show ?thesis
      by (simp add: exists_iff_listed move_path_def)
  qed
  show "\<not> os_path_exists fs2 src" if ne: "src \<noteq> dst"
  proof
    assume "os_path_exists fs2 src"
    from assms k ne have fs2: "fs2 = map (\<lambda>e. (move_path src dst (fst e), snd e)) (delete_path dst fs)"
      and nb: "\<not> below dst src"
      by (auto simp: os_rename_def split: if_splits)
    from \<open>os_path_exists fs2 src\<close> obtain q where "src = move_path src dst q"
      unfolding fs2 exists_iff_listed by (auto simp: image_iff)
    then have "prefix (os_path_join dst []) src"
      using ne by (auto simp: move_path_def split: if_splits intro: prefixI)
    with nb ne show False
      by (simp add: below_def)
  qed
qed

text \<open>
  Claim C1, as stated, fails: with encryption enabled and the project folder in use, the
  call does not raise; it renames the project folder.
\<close>

theorem rename_project_in_use_counterexample:
  "encryption_enabled (sample_env True [''/tvb/PROJECTS/P''])
   \<and> is_in_usage (sample_env True [''/tvb/PROJECTS/P''])
       (get_project_folder (sample_env True [''/tvb/PROJECTS/P'']) ''P'' [])
   \<and> fst (rename_project (sample_env True [''/tvb/PROJECTS/P'']) ''P'' ''Q'' (fresh_world sample_files))
       = Inr ()
   \<and> os_path_exists
       (files (snd (rename_project (sample_env True [''/tvb/PROJECTS/P'']) ''P'' ''Q''
                      (fresh_world sample_files))))
       ''/tvb/PROJECTS/Q''"
  by code_simp

text \<open>
  Claim C1, amended. With encryption enabled and the project folder not in use
  (\<open>is_in_usage\<close> answers \<open>False\<close>), \<open>rename_project\<close> raises
  \<open>RenameWhileSyncEncryptingException\<close> and leaves the state as it was. Otherwise it renames
  the plaintext structure. When that step raises, the call ends with its exception in the
  state the step left. When it succeeds and the encrypted counterpart does not exist, the
  call is done. When it succeeds and the counterpart exists, the counterpart is renamed with
  \<open>os.rename\<close> to the path computed from the new name: if \<open>os.rename\<close> succeeds, the
  counterpart is at the new path and, the two paths being different, no longer at the old
  one; if \<open>os.rename\<close> raises, the call ends with that exception, the plaintext structure
  renamed and the counterpart still at the old path.
\<close>

theorem rename_project_guard_and_effect:
  assumes "project_folder = get_project_folder E current_proj_name []"
    and "encrypted_path = compute_encrypted_folder_path E project_folder"
    and "new_encrypted_path = compute_encrypted_folder_path E (get_project_folder E new_name [])"
  shows "(encryption_enabled E \<and> \<not> is_in_usage E project_folder \<longrightarrow>
            rename_project E current_proj_name new_name w
              = (Inl RenameWhileSyncEncryptingException, w))
       \<and> (\<not> (encryption_enabled E \<and> \<not> is_in_usage E project_folder) \<longrightarrow>
            (\<forall>fs1. rename_project_structure E current_proj_name new_name (files w) = (Inr (), fs1) \<longrightarrow>
               (\<not> os_path_exists fs1 encrypted_path \<longrightarrow>
                  rename_project E current_proj_name new_name w = (Inr (), update_files w fs1))
             \<and> (os_path_exists fs1 encrypted_path \<longrightarrow>
                  (\<forall>fs2. os_rename encrypted_path new_encrypted_path fs1 = Inr fs2 \<longrightarrow>
                     rename_project E current_proj_name new_name w = (Inr (), update_files w fs2)
                     \<and> os_path_exists fs2 new_encrypted_path
                     \<and> (encrypted_path \<noteq> new_encrypted_path \<longrightarrow>
                           \<not> os_path_exists fs2 encrypted_path))
                \<and> (\<forall>e. os_rename encrypted_path new_encrypted_path fs1 = Inl e \<longrightarrow>
                     rename_project E current_proj_name new_name w = (Inl e, update_files w fs1)
                     \<and> os_path_exists (files (update_files w fs1)) encrypted_path)))
          \<and> (\<forall>e fs1. rename_project_structure E current_proj_name new_name (files w) = (Inl e, fs1) \<longrightarrow>
               rename_project E current_proj_name new_name w = (Inl e, update_files w fs1)))"
  using assms
  by (auto simp: rename_project_def Let_def update_files_def dest: os_rename_moves)

theorem rename_project_guard_and_effect_witness:
  "rename_project (sample_env True []) ''P'' ''Q'' (fresh_world sample_files)
     = (Inl RenameWhileSyncEncryptingException, fresh_world sample_files)
   \<and> fst (rename_project (sample_env True [''/tvb/PROJECTS/P'']) ''P'' ''Q''
            (fresh_world sample_files)) = Inr ()
   \<and> os_path_exists
       (files (snd (rename_project (sample_env True [''/tvb/PROJECTS/P'']) ''P'' ''Q''
                      (fresh_world sample_files))))
       ''/tvb/PROJECTS/Q_encrypted''
   \<and> \<not> os_path_exists
       (files (snd (rename_project (sample_env True [''/tvb/PROJECTS/P'']) ''P'' ''Q''
                      (fresh_world sample_files))))
       ''/tvb/PROJECTS/P_encrypted''
   \<and> fst (rename_project (sample_env True [''/tvb/PROJECTS/P'']) ''P'' ''Q''
            (fresh_world (sample_files @ [(''/tvb/PROJECTS/Q_encrypted'', Dir),
                                          (''/tvb/PROJECTS/Q_encrypted/old.aes'', File)])))
       = Inl OSError
   \<and> os_path_exists
       (files (snd (rename_project (sample_env True [''/tvb/PROJECTS/P'']) ''P'' ''Q''
            (fresh_world (sample_files @ [(''/tvb/PROJECTS/Q_encrypted'', Dir),
                                          (''/tvb/PROJECTS/Q_encrypted/old.aes'', File)])))))
       ''/tvb/PROJECTS/P_encrypted''"
proof -
  let ?E1 = "sample_env True []"
  let ?E2 = "sample_env True [''/tvb/PROJECTS/P'']"
  let ?W = "fresh_world sample_files"
  let ?fs1 = "[(''/tvb/PROJECTS/Q'', Dir), (''/tvb/PROJECTS/Q/7'', Dir),
               (''/tvb/PROJECTS/Q/7/TimeSeries_abc.h5'', File),
               (''/tvb/PROJECTS/Q/7/notes'', Dir), (''/tvb/PROJECTS/Q/7/b1.h5'', File),
               (''/tvb/PROJECTS/P_encrypted'', Dir), (''/tvb/KEYS/1'', File)]"
  let ?fs2 = "[(''/tvb/PROJECTS/Q'', Dir), (''/tvb/PROJECTS/Q/7'', Dir),
               (''/tvb/PROJECTS/Q/7/TimeSeries_abc.h5'', File),
               (''/tvb/PROJECTS/Q/7/notes'', Dir), (''/tvb/PROJECTS/Q/7/b1.h5'', File),
               (''/tvb/PROJECTS/Q_encrypted'', Dir), (''/tvb/KEYS/1'', File)]"
  have g1: "encryption_enabled ?E1 \<and> \<not> is_in_usage ?E1 (get_project_folder ?E1 ''P'' [])"
    by code_simp
  have a: "rename_project ?E1 ''P'' ''Q'' ?W = (Inl RenameWhileSyncEncryptingException, ?W)"
    using rename_project_guard_and_effect [OF refl refl refl,
        where E = ?E1 and current_proj_name = "''P''" and new_name = "''Q''" and w = ?W] g1
    by blast
  have g2: "\<not> (encryption_enabled ?E2 \<and> \<not> is_in_usage ?E2 (get_project_folder ?E2 ''P'' []))"
    by code_simp
  have s: "rename_project_structure ?E2 ''P'' ''Q'' (files ?W) = (Inr (), ?fs1)"
    by code_simp
  have p: "compute_encrypted_folder_path ?E2 (get_project_folder ?E2 ''P'' [])
             = ''/tvb/PROJECTS/P_encrypted''"
    by code_simp
  have q: "compute_encrypted_folder_path ?E2 (get_project_folder ?E2 ''Q'' [])
             = ''/tvb/PROJECTS/Q_encrypted''"
    by code_simp
  have x: "os_path_exists ?fs1 ''/tvb/PROJECTS/P_encrypted''"
    by code_simp
  have r: "os_rename ''/tvb/PROJECTS/P_encrypted'' ''/tvb/PROJECTS/Q_encrypted'' ?fs1 = Inr ?fs2"
    by code_simp
  have ne: "''/tvb/PROJECTS/P_encrypted'' \<noteq> ''/tvb/PROJECTS/Q_encrypted''"
    by simp
  have b: "rename_project ?E2 ''P'' ''Q'' ?W = (Inr (), update_files ?W ?fs2)
           \<and> os_path_exists ?fs2 ''/tvb/PROJECTS/Q_encrypted''
           \<and> \<not> os_path_exists ?fs2 ''/tvb/PROJECTS/P_encrypted''"
    using rename_project_guard_and_effect [OF refl p [symmetric] q [symmetric],
        where w = ?W] g2 s x r ne
    by blast
  let ?V = "fresh_world (sample_files @ [(''/tvb/PROJECTS/Q_encrypted'', Dir),
                                          (''/tvb/PROJECTS/Q_encrypted/old.aes'', File)])"
  let ?gs1 = "[(''/tvb/PROJECTS/Q'', Dir), (''/tvb/PROJECTS/Q/7'', Dir),
               (''/tvb/PROJECTS/Q/7/TimeSeries_abc.h5'', File),
               (''/tvb/PROJECTS/Q/7/notes'', Dir), (''/tvb/PROJECTS/Q/7/b1.h5'', File),
               (''/tvb/PROJECTS/P_encrypted'', Dir), (''/tvb/KEYS/1'', File),
               (''/tvb/PROJECTS/Q_encrypted'', Dir),
               (''/tvb/PROJECTS/Q_encrypted/old.aes'', File)]"
  have s': "rename_project_structure ?E2 ''P'' ''Q'' (files ?V) = (Inr (), ?gs1)"
    by code_simp
  have x': "os_path_exists ?gs1 ''/tvb/PROJECTS/P_encrypted''"
    by code_simp
  have r': "os_rename ''/tvb/PROJECTS/P_encrypted'' ''/tvb/PROJECTS/Q_encrypted'' ?gs1
              = Inl OSError"
    by code_simp
  have c: "rename_project ?E2 ''P'' ''Q'' ?V = (Inl OSError, update_files ?V ?gs1)
           \<and> os_path_exists (files (update_files ?V ?gs1)) ''/tvb/PROJECTS/P_encrypted''"
    using rename_project_guard_and_effect [OF refl p [symmetric] q [symmetric],
        where w = ?V] g2 s' x' r'
    by blast
  from a b c show ?thesis
    by (simp add: update_files_def)
qed

subsection \<open>remove_project\<close>

lemma delete_path_gone: "\<not> os_path_exists (delete_path p fs) p"
  by (auto simp: exists_iff_listed delete_path_def)

text \<open>
  Claim C5. \<open>remove_project\<close> removes the plaintext structure first. When that step raises,
  the call ends with that exception in the state the step left, so the call itself touches
  neither the encrypted folder nor the key file. When it succeeds, the encrypted
  counterpart is removed if it exists (an exception of that step ends the call before the
  key is looked at), and after that the key file is removed if it exists.
\<close>

theorem remove_project_order:
  assumes "encrypted_path =
             compute_encrypted_folder_path E (get_project_folder E (p_name project) [])"
    and "key = project_key_path E (p_id project)"
  shows "(\<forall>e fs1. remove_project_structure E (p_name project) (files w) = (Inl e, fs1) \<longrightarrow>
            remove_project E project w = (Inl e, update_files w fs1))
       \<and> (\<forall>fs1. remove_project_structure E (p_name project) (files w) = (Inr (), fs1) \<longrightarrow>
            (\<forall>e fs2. os_path_exists fs1 encrypted_path
                      \<and> remove_folder E encrypted_path fs1 = (Inl e, fs2) \<longrightarrow>
               remove_project E project w = (Inl e, update_files w fs2))
          \<and> (\<forall>fs2. (os_path_exists fs1 encrypted_path
                        \<and> remove_folder E encrypted_path fs1 = (Inr (), fs2))
                    \<or> (\<not> os_path_exists fs1 encrypted_path \<and> fs2 = fs1) \<longrightarrow>
               (\<not> os_path_exists fs2 key \<longrightarrow>
                  remove_project E project w = (Inr (), update_files w fs2))
             \<and> (os_path_isfile fs2 key \<longrightarrow>
                  remove_project E project w = (Inr (), update_files w (delete_path key fs2))
                  \<and> \<not> os_path_exists (delete_path key fs2) key)
             \<and> (os_path_isdir fs2 key \<longrightarrow>
                  remove_project E project w = (Inl OSError, update_files w fs2))))"
proof -
  have key_cases:
    "\<not> os_path_exists fs2 key \<longrightarrow> remove_project_key E (p_id project) fs2 = (Inr (), fs2)"
    "os_path_isfile fs2 key \<longrightarrow>
       remove_project_key E (p_id project) fs2 = (Inr (), delete_path key fs2)"
    "os_path_isdir fs2 key \<longrightarrow> remove_project_key E (p_id project) fs2 = (Inl OSError, fs2)"
    for fs2
    using assms(2)
    by (auto simp: remove_project_key_def os_remove_def os_path_exists_def os_path_isfile_def
        os_path_isdir_def)
  show ?thesis
    using assms(1) key_cases
    by (auto simp: remove_project_def remove_encrypted_folder_def Let_def delete_path_gone)
qed

theorem remove_project_order_witness:
  "remove_project (sample_env True []) \<lparr>p_id = 1, p_name = ''Gone'', p_gid = ''g0''\<rparr>
       (fresh_world sample_files)
     = (Inl FileStructureException, fresh_world sample_files)
   \<and> os_path_exists sample_files ''/tvb/KEYS/1''
   \<and> remove_project (sample_env True []) sample_project (fresh_world sample_files)
     = (Inr (), fresh_world [])"
proof -
  let ?E = "sample_env True []"
  let ?W = "fresh_world sample_files"
  let ?G = "\<lparr>p_id = 1, p_name = ''Gone'', p_gid = ''g0''\<rparr>"
  have f: "remove_project_structure ?E (p_name ?G) (files ?W)
             = (Inl FileStructureException, sample_files)"
    by code_simp
  have a: "remove_project ?E ?G ?W = (Inl FileStructureException, update_files ?W sample_files)"
    using remove_project_order [OF refl refl, where E = ?E and project = ?G and w = ?W] f
    by blast
  let ?fs1 = "[(''/tvb/PROJECTS/P_encrypted'', Dir), (''/tvb/KEYS/1'', File)]"
  let ?fs2 = "[(''/tvb/KEYS/1'', File)]"
  have s: "remove_project_structure ?E (p_name sample_project) (files ?W) = (Inr (), ?fs1)"
    by code_simp
  have p: "compute_encrypted_folder_path ?E (get_project_folder ?E (p_name sample_project) [])
             = ''/tvb/PROJECTS/P_encrypted''"
    by code_simp
  have k: "project_key_path ?E (p_id sample_project) = ''/tvb/KEYS/1''"
    by code_simp
  have x: "os_path_exists ?fs1 ''/tvb/PROJECTS/P_encrypted''
           \<and> remove_folder ?E ''/tvb/PROJECTS/P_encrypted'' ?fs1 = (Inr (), ?fs2)"
    by code_simp
  have kf: "os_path_isfile ?fs2 ''/tvb/KEYS/1''"
    by code_simp
  have b: "remove_project ?E sample_project ?W
             = (Inr (), update_files ?W (delete_path ''/tvb/KEYS/1'' ?fs2))"
    using remove_project_order [OF p [symmetric] k [symmetric], where w = ?W] s x kf
    by blast
  have d: "delete_path ''/tvb/KEYS/1'' ?fs2 = []"
    by code_simp
  have e: "os_path_exists sample_files ''/tvb/KEYS/1''"
    by code_simp
  from a b d e show ?thesis
    by (simp add: update_files_def fresh_world_def)
qed

subsection \<open>export_data: the checks before the export\<close>

text \<open>
  Claim C4, as stated, fails: for data that is given and an exporter id that is \<open>None\<close>
  the call raises \<open>ExportException\<close>, not \<open>InvalidExportDataException\<close>.
\<close>

theorem export_data_null_exporter_counterexample:
  "fst (export_data (sample_env False [])
          (Some \<lparr>d_gid = ''abc'', d_type = ''TimeSeries'', fk_from_operation = PyInt 7\<rparr>)
          None (Some sample_project) (fresh_world sample_files))
     = Inl ExportException
   \<and> fst (export_data (sample_env False [])
          (Some \<lparr>d_gid = ''abc'', d_type = ''TimeSeries'', fk_from_operation = PyInt 7\<rparr>)
          None (Some sample_project) (fresh_world sample_files))
     \<noteq> Inl InvalidExportDataException"
  by (simp add: export_data_def)

text \<open>
  Claim C4, amended. \<open>export_data\<close> raises \<open>InvalidExportDataException\<close> when the data is
  \<open>None\<close>, and when data, a registered exporter id and a project are given and the
  exporter does not accept the data. It raises \<open>ExportException\<close> when data is given and the
  exporter id is \<open>None\<close> or not registered, and when data and a registered exporter id are
  given and the project is \<open>None\<close>. None of these cases changes the state. The registered
  ids are the class names of the two exporters.
\<close>

theorem export_data_errors:
  "export_data E None exporter_id project w = (Inl InvalidExportDataException, w)
   \<and> export_data E (Some d) None project w = (Inl ExportException, w)
   \<and> (eid \<noteq> ''TVBExporter'' \<and> eid \<noteq> ''TVBLinkedExporter'' \<longrightarrow>
        export_data E (Some d) (Some eid) project w = (Inl ExportException, w))
   \<and> (map_of (all_exporters E) eid = Some exporter \<longrightarrow>
        export_data E (Some d) (Some eid) None w = (Inl ExportException, w)
        \<and> (\<not> accepts exporter d \<longrightarrow>
             export_data E (Some d) (Some eid) (Some p) w = (Inl InvalidExportDataException, w)))"
  by (simp add: export_data_def all_exporters_def)

theorem export_data_errors_witness:
  "export_data (sample_env False []) (Some \<lparr>d_gid = ''abc'', d_type = ''Surface'', fk_from_operation = PyInt 7\<rparr>)
       (Some ''CSVExporter'') (Some sample_project) (fresh_world sample_files)
     = (Inl ExportException, fresh_world sample_files)
   \<and> export_data (sample_env False []) (Some \<lparr>d_gid = ''abc'', d_type = ''Surface'', fk_from_operation = PyInt 7\<rparr>)
       (Some ''TVBExporter'') None (fresh_world sample_files)
     = (Inl ExportException, fresh_world sample_files)
   \<and> export_data (sample_env False []) (Some \<lparr>d_gid = ''abc'', d_type = ''Surface'', fk_from_operation = PyInt 7\<rparr>)
       (Some ''TVBExporter'') (Some sample_project) (fresh_world sample_files)
     = (Inl InvalidExportDataException, fresh_world sample_files)"
proof -
  let ?E = "sample_env False []"
  let ?d = "\<lparr>d_gid = ''abc'', d_type = ''Surface'', fk_from_operation = PyInt 7\<rparr>"
  have n: "''CSVExporter'' \<noteq> ''TVBExporter'' \<and> ''CSVExporter'' \<noteq> ''TVBLinkedExporter''"
    by simp
  have a: "export_data ?E (Some ?d) (Some ''CSVExporter'') (Some sample_project)
             (fresh_world sample_files) = (Inl ExportException, fresh_world sample_files)"
    using export_data_errors [where E = ?E and d = ?d and eid = "''CSVExporter''"
        and project = "Some sample_project" and w = "fresh_world sample_files"] n
    by blast
  have r: "map_of (all_exporters ?E) ''TVBExporter'' = Some writing_exporter"
    by (simp add: all_exporters_def sample_env_def)
  have na: "\<not> accepts writing_exporter ?d"
    by (simp add: writing_exporter_def)
  have b: "export_data ?E (Some ?d) (Some ''TVBExporter'') None (fresh_world sample_files)
             = (Inl ExportException, fresh_world sample_files)
           \<and> export_data ?E (Some ?d) (Some ''TVBExporter'') (Some sample_project)
               (fresh_world sample_files)
             = (Inl InvalidExportDataException, fresh_world sample_files)"
    using export_data_errors [where E = ?E and d = ?d and eid = "''TVBExporter''"
        and exporter = writing_exporter and p = sample_project
        and w = "fresh_world sample_files"] r na
    by blast
  from a b show ?thesis
    by simp
qed

subsection \<open>export_data: the staging folder\<close>

lemma remove_if_empty_result:
  assumes "remove_if_empty dir w2 = (r, w3)"
  shows "\<not> (os_path_isdir (files w3) dir \<and> dir_entries (files w3) dir = [])"
    and "os_listdir (files w2) dir = Inr [] \<Longrightarrow> r = Inr () \<and> \<not> os_path_exists (files w3) dir"
proof -
  show "\<not> (os_path_isdir (files w3) dir \<and> dir_entries (files w3) dir = [])"
    using assms
    by (auto simp: remove_if_empty_def os_listdir_def os_rmdir_def update_files_def
        delete_path_gone dest!: isdir_exists split: if_splits)
  show "r = Inr () \<and> \<not> os_path_exists (files w3) dir" if "os_listdir (files w2) dir = Inr []"
    using assms that
    by (auto simp: remove_if_empty_def os_listdir_def os_rmdir_def update_files_def
        delete_path_gone split: if_splits)
qed

text \<open>
  Claim C8. Take a call of \<open>export_data\<close> that passes the checks and builds its staging
  folder. Whatever the export step does, returning or raising: if the folder is an empty
  directory after that step, the call removes it and ends with the outcome of the export
  step; and in no case does the call end with the folder present as an empty directory.
\<close>

theorem export_data_removes_empty_folder:
  assumes "map_of (all_exporters E) eid = Some exporter"
    and "accepts exporter d"
    and "build_data_export_folder E (d_gid d) (export_folder E) w = (Inr dir, w1)"
    and "export exporter d dir p (files w1) = (r0, fs2)"
    and "export_data E (Some d) (Some eid) (Some p) w = (r, w')"
  shows "(os_listdir fs2 dir = Inr [] \<longrightarrow> r = r0 \<and> \<not> os_path_exists (files w') dir)
       \<and> \<not> (os_path_isdir (files w') dir \<and> dir_entries (files w') dir = [])"
proof -
  obtain r3 w3 where fin: "remove_if_empty dir (update_files w1 fs2) = (r3, w3)"
    by (cases "remove_if_empty dir (update_files w1 fs2)")
  from assms fin have out: "w' = w3" "r3 = Inr () \<Longrightarrow> r = r0"
    by (auto simp: export_data_def export_in_folder_def split: sum.splits)
  from remove_if_empty_result [OF fin] out show ?thesis
    by (auto simp: update_files_def)
qed

theorem export_data_removes_empty_folder_witness:
  "fst (export_data (sample_env False [])
          (Some \<lparr>d_gid = ''abc'', d_type = ''Surface'', fk_from_operation = PyInt 7\<rparr>)
          (Some ''TVBLinkedExporter'') (Some sample_project) (fresh_world sample_files))
     = Inl ExportException
   \<and> \<not> os_path_exists
         (files (snd (export_data (sample_env False [])
            (Some \<lparr>d_gid = ''abc'', d_type = ''Surface'', fk_from_operation = PyInt 7\<rparr>)
            (Some ''TVBLinkedExporter'') (Some sample_project) (fresh_world sample_files))))
         ''/tvb/EXPORT_TMP/2021-7-5_9-30-0_0@abc''"
proof -
  let ?E = "sample_env False []"
  let ?d = "\<lparr>d_gid = ''abc'', d_type = ''Surface'', fk_from_operation = PyInt 7\<rparr>"
  let ?W = "fresh_world sample_files"
  let ?dir = "''/tvb/EXPORT_TMP/2021-7-5_9-30-0_0@abc''"
  let ?fs2 = "sample_files @ [(?dir, Dir)]"
  let ?w1 = "\<lparr>files = ?fs2, tvb_zip = None, encryption_handler = None, ticks = 1\<rparr>"
  have h1: "map_of (all_exporters ?E) ''TVBLinkedExporter'' = Some failing_exporter"
    by (simp add: all_exporters_def sample_env_def)
  have h2: "accepts failing_exporter ?d"
    by (simp add: failing_exporter_def)
  have h3: "build_data_export_folder ?E (d_gid ?d) (export_folder ?E) ?W = (Inr ?dir, ?w1)"
    by code_simp
  have h4: "export failing_exporter ?d ?dir sample_project (files ?w1)
              = (Inl ExportException, ?fs2)"
    by (simp add: failing_exporter_def)
  have h5: "export_data ?E (Some ?d) (Some ''TVBLinkedExporter'') (Some sample_project) ?W
              = (fst (export_data ?E (Some ?d) (Some ''TVBLinkedExporter'') (Some sample_project) ?W),
                 snd (export_data ?E (Some ?d) (Some ''TVBLinkedExporter'') (Some sample_project) ?W))"
    by simp
  have e: "os_listdir ?fs2 ?dir = Inr []"
    by code_simp
  from export_data_removes_empty_folder [OF h1 h2 h3 h4 h5] e show ?thesis
    by blast
qed

subsection \<open>cleanup\<close>

lemma filter_keeps_missing:
  "\<not> os_path_exists fs q \<Longrightarrow> \<not> os_path_exists (filter P fs) q"
  by (auto simp: exists_iff_listed)

lemma remove_tree_gone: "\<not> os_path_exists (remove_tree p fs) p"
  by (auto simp: exists_iff_listed remove_tree_def)

lemma encryption_handler_cleanup_clean:
  "\<not> os_path_exists (encryption_handler_cleanup E g fs) (get_encrypted_dir E g)"
  "\<not> os_path_exists (encryption_handler_cleanup E g fs) (get_password_file E g)"
  by (auto simp: encryption_handler_cleanup_def Let_def delete_path_def remove_tree_gone
      delete_path_gone [unfolded delete_path_def] filter_keeps_missing)

lemma encryption_handler_cleanup_noop:
  "\<not> os_path_exists fs (get_encrypted_dir E g) \<Longrightarrow>
   \<not> os_path_exists fs (get_password_file E g) \<Longrightarrow> encryption_handler_cleanup E g fs = fs"
  by (simp add: encryption_handler_cleanup_def)

text \<open>
  Claim C9. \<open>cleanup(dir_gid)\<close> run a second time leaves the state the first run left;
  on a directory that is already clean (no encrypted directory, no password file) it returns
  without an exception and leaves the files as they are; and after it neither the
  encrypted directory nor the password file exists.
\<close>

theorem cleanup_idempotent:
  "cleanup E dir_gid (snd (cleanup E dir_gid w)) = cleanup E dir_gid w
   \<and> fst (cleanup E dir_gid w) = Inr ()
   \<and> \<not> os_path_exists (files (snd (cleanup E dir_gid w))) (get_encrypted_dir E dir_gid)
   \<and> \<not> os_path_exists (files (snd (cleanup E dir_gid w))) (get_password_file E dir_gid)
   \<and> (\<not> os_path_exists (files w) (get_encrypted_dir E dir_gid)
        \<and> \<not> os_path_exists (files w) (get_password_file E dir_gid)
        \<longrightarrow> files (snd (cleanup E dir_gid w)) = files w)"
  by (simp add: cleanup_def encryption_handler_cleanup_clean encryption_handler_cleanup_noop)

theorem cleanup_idempotent_witness:
  "files (snd (cleanup (sample_env True []) ''g7''
       (fresh_world [(''/tvb/ENC/g7'', Dir), (''/tvb/ENC/g7/data.aes'', File),
                     (''/tvb/PASS/g7'', File), (''/tvb/PROJECTS/P'', Dir)])))
     = [(''/tvb/PROJECTS/P'', Dir)]
   \<and> files (snd (cleanup (sample_env True []) ''g7'' (fresh_world [(''/tvb/PROJECTS/P'', Dir)])))
     = [(''/tvb/PROJECTS/P'', Dir)]
   \<and> cleanup (sample_env True []) ''g7''
       (snd (cleanup (sample_env True []) ''g7''
          (fresh_world [(''/tvb/ENC/g7'', Dir), (''/tvb/ENC/g7/data.aes'', File),
                        (''/tvb/PASS/g7'', File), (''/tvb/PROJECTS/P'', Dir)])))
     = cleanup (sample_env True []) ''g7''
         (fresh_world [(''/tvb/ENC/g7'', Dir), (''/tvb/ENC/g7/data.aes'', File),
                       (''/tvb/PASS/g7'', File), (''/tvb/PROJECTS/P'', Dir)])"
proof -
  let ?E = "sample_env True []"
  let ?clean = "fresh_world [(''/tvb/PROJECTS/P'', Dir)]"
  let ?full = "fresh_world [(''/tvb/ENC/g7'', Dir), (''/tvb/ENC/g7/data.aes'', File),
                            (''/tvb/PASS/g7'', File), (''/tvb/PROJECTS/P'', Dir)]"
  have c: "\<not> os_path_exists (files ?clean) (get_encrypted_dir ?E ''g7'')
           \<and> \<not> os_path_exists (files ?clean) (get_password_file ?E ''g7'')"
    by code_simp
  have a: "files (snd (cleanup ?E ''g7'' ?clean)) = files ?clean"
    using cleanup_idempotent [of ?E "''g7''" ?clean] c by blast
  have b: "cleanup ?E ''g7'' (snd (cleanup ?E ''g7'' ?full)) = cleanup ?E ''g7'' ?full"
    using cleanup_idempotent [of ?E "''g7''" ?full] by blast
  have d: "files (snd (cleanup ?E ''g7'' ?full)) = [(''/tvb/PROJECTS/P'', Dir)]"
    by code_simp
  from a b d show ?thesis
    by (simp add: fresh_world_def)
qed

subsection \<open>Linked datatypes\<close>

lemma write_linked_entries:
  "tvb_zip w = Some z \<Longrightarrow>
   write_linked nm paths w =
     (Inr (), w\<lparr>tvb_zip := Some (z\<lparr>zip_entries :=
        zip_entries z @ map (\<lambda>pth. ZipArc pth (nm @ ''/'' @ os_path_basename pth)) paths\<rparr>)\<rparr>)"
proof (induction paths arbitrary: w z)
  case Nil
  then show ?case by simp
next
  case (Cons pth rest)
  let ?w1 = "w\<lparr>tvb_zip := Some (z\<lparr>zip_entries :=
               zip_entries z @ [ZipArc pth (nm @ ''/'' @ os_path_basename pth)]\<rparr>)\<rparr>"
  from Cons.prems have step:
    "write_zip_arc pth (nm @ ''/'' @ os_path_basename pth) w = (Inr (), ?w1)"
    by (simp add: write_zip_arc_def add_zip_entry_def)
  have "tvb_zip ?w1 =
          Some (z\<lparr>zip_entries := zip_entries z @ [ZipArc pth (nm @ ''/'' @ os_path_basename pth)]\<rparr>)"
    by simp
  from Cons.IH [OF this] step show ?case
    by (simp add: Let_def)
qed



subsection \<open>StorageInterface.export_project\<close>

lemma collect_packs_ids:
  "\<exists>ids. collect_packs E p ex dts acc seen =
            (acc @ map (\<lambda>i. \<lparr>folder = get_project_folder E (p_name p) [str i],
                              archive_path_prefix = str i @ os_sep, exclude = ex\<rparr>) ids,
             seen @ ids)
         \<and> distinct ids \<and> set ids = fk_from_operation ` set dts - set seen"
proof (induction dts arbitrary: acc seen)
  case Nil
  show ?case by simp
next
  case (Cons dt rest)
  let ?i = "fk_from_operation dt"
  let ?mk = "\<lambda>i. \<lparr>folder = get_project_folder E (p_name p) [str i],
                    archive_path_prefix = str i @ os_sep, exclude = ex\<rparr>"
  show ?case
  proof (cases "?i \<in> set seen")
    case True
    from Cons.IH [of acc seen] obtain ids where
      "collect_packs E p ex rest acc seen = (acc @ map ?mk ids, seen @ ids)"
      "distinct ids" "set ids = fk_from_operation ` set rest - set seen"
      by blast
    with True show ?thesis
      by (intro exI [of _ ids]) (auto simp: Let_def)
  next
    case False
    from Cons.IH [of "acc @ [?mk ?i]" "seen @ [?i]"] obtain ids where
      ids: "collect_packs E p ex rest (acc @ [?mk ?i]) (seen @ [?i])
              = ((acc @ [?mk ?i]) @ map ?mk ids, (seen @ [?i]) @ ids)"
      "distinct ids" "set ids = fk_from_operation ` set rest - set (seen @ [?i])"
      by blast
    with False show ?thesis
      by (intro exI [of _ "?i # ids"]) (auto simp: Let_def)
  qed
qed

lemma write_packs_entries:
  "tvb_zip w = Some z \<Longrightarrow>
   write_packs packs w =
     (Inr (), w\<lparr>tvb_zip := Some (z\<lparr>zip_entries := zip_entries z @
        map (\<lambda>pk. ZipFolder (folder pk) (archive_path_prefix pk) (exclude pk)) packs\<rparr>)\<rparr>)"
proof (induction packs arbitrary: w z)
  case Nil
  then show ?case by simp
next
  case (Cons pk rest)
  let ?x = "ZipFolder (folder pk) (archive_path_prefix pk) (exclude pk)"
  let ?w1 = "w\<lparr>tvb_zip := Some (z\<lparr>zip_entries := zip_entries z @ [?x]\<rparr>)\<rparr>"
  from Cons.prems have step:
    "write_zip_folder (folder pk) (archive_path_prefix pk) (exclude pk) w = (Inr (), ?w1)"
    by (simp add: write_zip_folder_def add_zip_entry_def)
  have "tvb_zip ?w1 = Some (z\<lparr>zip_entries := zip_entries z @ [?x]\<rparr>)"
    by simp
  from Cons.IH [OF this] step show ?case
    by simp
qed

lemma linked_arcs_not_project_file:
  "filter is_project_file_entry (map (\<lambda>pth. ZipArc pth (nm @ CHR ''/'' # g pth)) paths) = []"
proof -
  have "nm @ CHR ''/'' # x \<noteq> TVB_PROJECT_FILE" for x
  proof
    assume "nm @ CHR ''/'' # x = TVB_PROJECT_FILE"
    then have "CHR ''/'' \<in> set TVB_PROJECT_FILE"
      by (metis in_set_conv_decomp append_Cons)
    then show False
      by (simp add: TVB_PROJECT_FILE_def TVB_FILE_EXTENSION_def)
  qed
  then show ?thesis
    by (induction paths) auto
qed

lemma linked_arcs_not_folder:
  "filter is_folder_entry (map (\<lambda>pth. ZipArc pth (h pth)) paths) = []"
  by (induction paths) auto

lemma folder_requests_are_folders:
  "filter is_folder_entry (map (\<lambda>pk. ZipFolder (d pk) (a pk) (x pk)) packs)
     = map (\<lambda>pk. ZipFolder (d pk) (a pk) (x pk)) packs"
  "filter is_project_file_entry (map (\<lambda>pk. ZipFolder (d pk) (a pk) (x pk)) packs) = []"
  by (induction packs) auto

lemma write_linked_part_entries:
  assumes "tvb_zip w = Some z"
    and "linked_paths = None
         \<or> (\<exists>opn prj. op = Some opn \<and> o_project opn = Some prj
               \<and> fst (remove_folder E (get_operation_folder E (p_name prj) (o_id opn)) (files w))
                   = Inr ())"
  shows "\<exists>arcs fs'.
           write_linked_part E linked_paths op w =
             (Inr (), w\<lparr>tvb_zip := Some (z\<lparr>zip_entries := zip_entries z @ arcs\<rparr>), files := fs'\<rparr>)
           \<and> filter is_folder_entry arcs = [] \<and> filter is_project_file_entry arcs = []"
proof (cases linked_paths)
  case None
  with assms(1) have "write_linked_part E linked_paths op w =
      (Inr (), w\<lparr>tvb_zip := Some (z\<lparr>zip_entries := zip_entries z @ []\<rparr>), files := files w\<rparr>)"
    by (simp add: write_linked_part_def)
  then show ?thesis
    by (intro exI [of _ "[]"] exI [of _ "files w"]) simp
next
  case (Some paths)
  with assms(2) obtain opn prj where op: "op = Some opn" "o_project opn = Some prj"
    and rm: "fst (remove_folder E (get_operation_folder E (p_name prj) (o_id opn)) (files w)) = Inr ()"
    by auto
  let ?dir = "get_operation_folder E (p_name prj) (o_id opn)"
  let ?arcs = "map (\<lambda>pth. ZipArc pth (os_path_basename ?dir @ ''/'' @ os_path_basename pth)) paths"
  from rm obtain fs2 where rm': "remove_folder E ?dir (files w) = (Inr (), fs2)"
    by (cases "remove_folder E ?dir (files w)") auto
  from write_linked_entries [OF assms(1), of "os_path_basename ?dir" paths] Some op rm'
  have "write_linked_part E linked_paths op w =
      (Inr (), w\<lparr>tvb_zip := Some (z\<lparr>zip_entries := zip_entries z @ ?arcs\<rparr>),
                  files := snd (remove_folder E ?dir (files w))\<rparr>)"
    by (simp add: write_linked_part_def export_datatypes_def Let_def update_files_def)
  then show ?thesis
    by (intro exI [of _ ?arcs] exI [of _ "snd (remove_folder E ?dir (files w))"])
      (simp add: linked_arcs_not_folder linked_arcs_not_project_file)
qed

text \<open>
  Claim C3. Take a call of \<open>StorageInterface.export_project\<close> whose export folder can be
  created and whose linked part, if there is one, can be written. The call returns the
  path of the archive it has opened and closed. With \<open>optimize_size\<close> the folders written
  to the archive are one per operation id of the given datatypes, each id once, the folder
  of the operation under the prefix \<open>str(op_id) + os.sep\<close>, and exactly one file is stored
  under the name \<open>Project.xml\<close>: the project metadata file. Without \<open>optimize_size\<close> the
  only folder written is the project folder, with the empty prefix and with \<open>"TEMP"\<close> added
  to the folders to exclude, and no file is stored under the name \<open>Project.xml\<close>.
\<close>

theorem si_export_project_archive:
  assumes "build_data_export_folder E (p_gid project) export_folder0 (snd (now E w)) = (Inr d, w1)"
    and "linked_paths = None
         \<or> (\<exists>opn prj. op = Some opn \<and> o_project opn = Some prj
               \<and> fst (remove_folder E (get_operation_folder E (p_name prj) (o_id opn)) (files w1))
                   = Inr ())"
  shows "\<exists>z w'.
           si_export_project E project dts excl export_folder0 linked_paths op optimize_size w
             = (Inr (zip_dest z), w')
           \<and> tvb_zip w' = Some z \<and> zip_closed z
           \<and> (if optimize_size
               then (\<exists>ids. distinct ids \<and> set ids = fk_from_operation ` set dts
                       \<and> folder_entries z =
                           map (\<lambda>i. ZipFolder (get_project_folder E (p_name project) [str i])
                                      (str i @ os_sep) excl) ids)
                    \<and> project_file_entries z =
                        [ZipArc (get_project_meta_file_path E (p_name project)) TVB_PROJECT_FILE]
               else folder_entries z =
                      [ZipFolder (get_project_folder E (p_name project) []) [] (excl @ [PyStr ''TEMP''])]
                    \<and> project_file_entries z = [])"
proof -
  let ?packs = "packs_to_export E project dts excl optimize_size"
  let ?req = "map (\<lambda>pk. ZipFolder (folder pk) (archive_path_prefix pk) (exclude pk)) ?packs"
  let ?name = "date_str_minute (clock E (ticks w)) @ ''_'' @ p_name project @ ''.'' @ ZIP_FILE_EXTENSION"
  let ?path = "os_path_join d ?name"
  let ?z0 = "\<lparr>zip_dest = ?path, zip_mode = ''w'', zip_entries = [], zip_closed = False\<rparr>"
  let ?w2 = "initialize_tvb_zip ?path ''w'' w1"
  have z2: "tvb_zip ?w2 = Some ?z0"
    by (simp add: initialize_tvb_zip_def)
  let ?z3 = "?z0\<lparr>zip_entries := zip_entries ?z0 @ ?req\<rparr>"
  let ?w3 = "?w2\<lparr>tvb_zip := Some ?z3\<rparr>"
  have packs: "write_packs ?packs ?w2 = (Inr (), ?w3)"
    by (rule write_packs_entries [OF z2])
  have z3: "tvb_zip ?w3 = Some ?z3" by simp
  have "files ?w3 = files w1"
    by (simp add: initialize_tvb_zip_def)
  with assms(2) have ok3: "linked_paths = None
         \<or> (\<exists>opn prj. op = Some opn \<and> o_project opn = Some prj
               \<and> fst (remove_folder E (get_operation_folder E (p_name prj) (o_id opn)) (files ?w3))
                   = Inr ())"
    by simp
  from write_linked_part_entries [OF z3 ok3] obtain arcs fs' where
    linked: "write_linked_part E linked_paths op ?w3 =
               (Inr (), ?w3\<lparr>tvb_zip := Some (?z3\<lparr>zip_entries := zip_entries ?z3 @ arcs\<rparr>),
                           files := fs'\<rparr>)"
    and arcs: "filter is_folder_entry arcs = []" "filter is_project_file_entry arcs = []"
    by blast
  let ?z4 = "?z3\<lparr>zip_entries := zip_entries ?z3 @ arcs\<rparr>"
  let ?w4 = "?w3\<lparr>tvb_zip := Some ?z4, files := fs'\<rparr>"
  let ?xml = "if optimize_size
              then [ZipArc (get_project_meta_file_path E (p_name project)) TVB_PROJECT_FILE]
              else []"
  let ?z5 = "?z4\<lparr>zip_entries := zip_entries ?z4 @ ?xml\<rparr>"
  let ?w5 = "?w4\<lparr>tvb_zip := Some ?z5\<rparr>"
  have xml: "write_project_xml E project optimize_size ?w4 = (Inr (), ?w5)"
    by (simp add: write_project_xml_def write_zip_arc_def add_zip_entry_def)
  let ?z6 = "?z5\<lparr>zip_closed := True\<rparr>"
  let ?w6 = "?w5\<lparr>tvb_zip := Some ?z6\<rparr>"
  have close: "close_tvb_zip ?w5 = (Inr (), ?w6)"
    by (simp add: close_tvb_zip_def)
  have now: "now E w = (clock E (ticks w), snd (now E w))"
    by (simp add: now_def)
  define z6 where "z6 = ?z6"
  define w6 where "w6 = ?w5\<lparr>tvb_zip := Some z6\<rparr>"
  have close': "close_tvb_zip ?w5 = (Inr (), w6)"
    unfolding w6_def z6_def by (rule close)
  have run: "si_export_project E project dts excl export_folder0 linked_paths op optimize_size w
               = (Inr ?path, w6)"
    unfolding si_export_project_def Let_def
    by (subst now) (simp only: prod.case sum.case assms(1) packs linked xml close')
  have z6: "tvb_zip w6 = Some z6" "zip_dest z6 = ?path" "zip_closed z6"
    by (simp_all add: w6_def z6_def)
  have entries: "zip_entries z6 = ?req @ arcs @ ?xml"
    by (simp add: z6_def)
  have folders: "folder_entries z6 = ?req"
    unfolding folder_entries_def entries
    by (simp add: arcs folder_requests_are_folders)
  have pfiles: "project_file_entries z6 = ?xml"
    unfolding project_file_entries_def entries
    by (simp add: arcs folder_requests_are_folders)
  have shape: "if optimize_size
               then (\<exists>ids. distinct ids \<and> set ids = fk_from_operation ` set dts
                       \<and> ?req =
                           map (\<lambda>i. ZipFolder (get_project_folder E (p_name project) [str i])
                                      (str i @ os_sep) excl) ids)
               else ?req =
                      [ZipFolder (get_project_folder E (p_name project) []) [] (excl @ [PyStr ''TEMP''])]"
  proof (cases optimize_size)
    case True
    from collect_packs_ids [of E project excl dts "[]" "[]"] obtain ids where
      "collect_packs E project excl dts [] [] =
         (map (\<lambda>i. \<lparr>folder = get_project_folder E (p_name project) [str i],
                     archive_path_prefix = str i @ os_sep, exclude = excl\<rparr>) ids, ids)"
      "distinct ids" "set ids = fk_from_operation ` set dts"
      by auto
    with True show ?thesis
      by (auto simp: packs_to_export_def comp_def intro!: exI [of _ ids])
  next
    case False
    then show ?thesis
      by (simp add: packs_to_export_def)
  qed
  show ?thesis
  proof (cases optimize_size)
    case True
    with run z6 shape show ?thesis
      by (intro exI [of _ z6] exI [of _ w6]) (simp add: folders pfiles)
  next
    case False
    with run z6 shape show ?thesis
      by (intro exI [of _ z6] exI [of _ w6]) (simp add: folders pfiles)
  qed
qed

theorem si_export_project_archive_witness:
  "(\<exists>z w'.
      si_export_project (sample_env False []) sample_project
          [\<lparr>d_gid = ''a'', d_type = ''TimeSeries'', fk_from_operation = PyInt 7\<rparr>,
           \<lparr>d_gid = ''b'', d_type = ''TimeSeries'', fk_from_operation = PyInt 7\<rparr>,
           \<lparr>d_gid = ''c'', d_type = ''TimeSeries'', fk_from_operation = PyInt 8\<rparr>]
          [PyInt 9] (export_folder (sample_env False [])) None None True
          (fresh_world sample_files)
        = (Inr (zip_dest z), w')
      \<and> tvb_zip w' = Some z \<and> zip_closed z
      \<and> (\<exists>ids. distinct ids \<and> set ids = {PyInt 7, PyInt 8}
            \<and> folder_entries z =
                map (\<lambda>i. ZipFolder
                            (get_project_folder (sample_env False []) (p_name sample_project) [str i])
                            (str i @ os_sep) [PyInt 9]) ids)
      \<and> project_file_entries z =
          [ZipArc (get_project_meta_file_path (sample_env False []) (p_name sample_project))
             TVB_PROJECT_FILE])
   \<and> (\<exists>z w'.
      si_export_project (sample_env False []) sample_project
          [\<lparr>d_gid = ''a'', d_type = ''TimeSeries'', fk_from_operation = PyInt 7\<rparr>]
          [PyInt 9] (export_folder (sample_env False [])) None None False
          (fresh_world sample_files)
        = (Inr (zip_dest z), w')
      \<and> tvb_zip w' = Some z \<and> zip_closed z
      \<and> folder_entries z =
          [ZipFolder (get_project_folder (sample_env False []) (p_name sample_project) []) []
             [PyInt 9, PyStr ''TEMP'']]
      \<and> project_file_entries z = [])"
proof -
  let ?E = "sample_env False []"
  let ?W = "fresh_world sample_files"
  let ?d = "''/tvb/EXPORT_TMP/2021-7-5_9-30-1_0@g1''"
  let ?w1 = "\<lparr>files = sample_files @ [(?d, Dir)], tvb_zip = None, encryption_handler = None,
              ticks = 2\<rparr>"
  have b: "build_data_export_folder ?E (p_gid sample_project) (export_folder ?E) (snd (now ?E ?W))
             = (Inr ?d, ?w1)"
    by code_simp
  have l: "(None :: path list option) = None
           \<or> (\<exists>opn prj. (None :: operation option) = Some opn \<and> o_project opn = Some prj
                 \<and> fst (remove_folder ?E (get_operation_folder ?E (p_name prj) (o_id opn))
                          (files ?w1)) = Inr ())"
    by simp
  from si_export_project_archive [OF b l, where optimize_size = True and excl = "[PyInt 9]"
      and dts = "[\<lparr>d_gid = ''a'', d_type = ''TimeSeries'', fk_from_operation = PyInt 7\<rparr>,
                  \<lparr>d_gid = ''b'', d_type = ''TimeSeries'', fk_from_operation = PyInt 7\<rparr>,
                  \<lparr>d_gid = ''c'', d_type = ''TimeSeries'', fk_from_operation = PyInt 8\<rparr>]"]
    si_export_project_archive [OF b l, where optimize_size = False and excl = "[PyInt 9]"
      and dts = "[\<lparr>d_gid = ''a'', d_type = ''TimeSeries'', fk_from_operation = PyInt 7\<rparr>]"]
  show ?thesis
    by simp
qed

subsection \<open>ExportManager.export_project\<close>

lemma em_export_project_never_returns:
  "\<exists>e. fst (em_export_project E (Some p) w) = Inl e"
  by (auto simp: em_export_project_def Let_def split: prod.splits sum.splits)

lemma em_export_project_null:
  "em_export_project E None w = (Inl ExportException, w)"
  by (simp add: em_export_project_def)

text \<open>
  Claim C2 against the code. For a project that is given, with no operation in error and no
  linked datatype, \<open>ExportManager.export_project\<close> does not return the path of an archive:
  the call into \<open>StorageInterface.export_project\<close> raises \<open>TypeError\<close>, and no archive has
  been opened.
\<close>

theorem em_export_project_raises_TypeError:
  "em_export_project (sample_env False []) (Some sample_project) (fresh_world sample_files)
     = (Inl TypeError, fresh_world sample_files)
   \<and> get_op_with_errors (sample_env False []) (p_id sample_project) = []
   \<and> tvb_zip (snd (em_export_project (sample_env False []) (Some sample_project)
                      (fresh_world sample_files))) = None"
  by (simp add: em_export_project_def em_export_linked_datatypes_def get_op_with_errors_def
      sample_env_def sample_project_def fresh_world_def)

subsection \<open>ExportManager.export_simulator_configuration\<close>

lemma build_data_export_folder_keeps_zip:
  "build_data_export_folder E g f w = (r, w1) \<Longrightarrow> tvb_zip w1 = tvb_zip w"
  by (auto simp: build_data_export_folder_def now_def update_files_def Let_def
      split: prod.splits sum.splits)

lemma export_simulator_configuration_never_returns:
  assumes "tvb_zip w = None" and "get_burst_by_id E burst_id = Some b"
  shows "\<exists>e. fst (export_simulator_configuration E burst_id w) = Inl e"
proof -
  obtain r1 w1 where b: "build_data_export_folder E (b_gid b) (export_folder E) w = (r1, w1)"
    by (cases "build_data_export_folder E (b_gid b) (export_folder E) w")
  from build_data_export_folder_keeps_zip [OF b] assms(1) have z1: "tvb_zip w1 = None"
    by simp
  have w: "write_zip_folder x y [] w3 = (Inr u, w4) \<Longrightarrow> now E (update_files w1 fs) = (t, w3) \<Longrightarrow> False"
    for x y fs u t w3 w4
    using z1 by (auto simp: write_zip_folder_def add_zip_entry_def now_def update_files_def)
  show ?thesis
    using assms(2) b
    by (auto simp: export_simulator_configuration_def Let_def split: prod.splits sum.splits
        dest: w)
qed

text \<open>
  Claim C7 against the code. For a burst that exists, on a manager whose storage interface
  has no archive open, \<open>export_simulator_configuration\<close> stages the files and then raises
  \<open>AttributeError\<close> at \<open>write_zip_folder\<close>: no archive is written, the staging folder stays
  on disk, and no path is returned.
\<close>

theorem export_simulator_configuration_raises_AttributeError:
  "export_simulator_configuration (sample_env False []) 1 (fresh_world sample_files)
     = (Inl AttributeError,
        \<lparr>files = sample_files @
           [(''/tvb/EXPORT_TMP/2021-7-5_9-30-0_0@b1'', Dir),
            (''/tvb/EXPORT_TMP/2021-7-5_9-30-0_0@b1/exported_simulation'', Dir),
            (''/tvb/EXPORT_TMP/2021-7-5_9-30-0_0@b1/exported_simulation/b1.h5'', File)],
         tvb_zip = None, encryption_handler = None, ticks = 2\<rparr>)"
  by code_simp

end
